theory Spec2Isabelle
  imports Main "HOL-Library.Sublist" "HOL-Library.Word"
begin

section \<open>The IDTReeS dataset adapter (torchgeo/datasets/idtrees.py)\<close>

text \<open>
  A shallow embedding of the class \<^verbatim>\<open>IDTReeS\<close>. Python exceptions are values of
  the type \<open>error\<close>, and a method that can raise returns \<open>error + 'a\<close> with
  \<open>Inl\<close> for the exception. Method names lose their leading underscore
  (\<^verbatim>\<open>_filter_boxes\<close> is \<open>filter_boxes\<close>), since an Isabelle name cannot start
  with one.
\<close>

datatype error =
    IndexError
  | KeyError
  | TypeError
  | ValueError
  | AttributeError
  | IOError
  | DatasetNotFoundError
  | DependencyNotFoundError

subsection \<open>Tensors of boxes and of labels\<close>

text \<open>
  A box is a row \<^verbatim>\<open>[xmin, ymin, xmax, ymax]\<close>. The boxes of the dataset are built by
  \<^verbatim>\<open>torch.tensor(boxes)\<close> from a list of such rows of Python integers (the row and
  column numbers that \<^verbatim>\<open>f.index\<close> returns), so the tensor holds 64-bit integers. An
  entry is modelled by its value, an \<open>int\<close>: every 64-bit entry is one, and the values
  the filter computes from the entries (the clipped coordinates and their
  differences) stay in the 64-bit range, so that no operation of the filter wraps
  (lemma \<open>filter_values_int64\<close>).

  The image size and the minimum side are Python integers that torch turns into
  64-bit scalars. They are 64-bit values here, of type \<open>int64\<close>, read as signed
  integers by \<open>sint\<close>; what torch does with a Python integer outside that range is
  not modelled. \<^verbatim>\<open>__getitem__\<close> passes the size \<open>(200, 200)\<close> and the minimum side 1.

  \<^verbatim>\<open>torch.tensor\<close> gives a tensor of shape \<^verbatim>\<open>[N, 4]\<close> for a list of \<open>N > 0\<close> rows, and
  the one-dimensional tensor of shape \<^verbatim>\<open>[0]\<close> for the empty list. Both shapes reach
  \<^verbatim>\<open>_filter_boxes\<close>, and they behave differently there, so the model keeps them
  apart: \<open>Tensor0\<close> is the tensor of shape \<^verbatim>\<open>[0]\<close>, \<open>TensorN4 bs\<close> the tensor of shape
  \<^verbatim>\<open>[length bs, 4]\<close> (\<open>TensorN4 []\<close> has shape \<^verbatim>\<open>[0, 4]\<close>). A label tensor is
  one-dimensional: an \<open>int list\<close>.
\<close>

type_synonym int64 = "64 word"

type_synonym box = "int \<times> int \<times> int \<times> int"

datatype boxes_tensor = Tensor0 | TensorN4 "box list"

fun len_boxes :: "boxes_tensor \<Rightarrow> nat" where
  "len_boxes Tensor0 = 0"
| "len_boxes (TensorN4 bs) = length bs"

subsection \<open>The two torchvision operations the filter calls\<close>

text \<open>
  \<^verbatim>\<open>clip_boxes_to_image\<close> and \<^verbatim>\<open>remove_small_boxes\<close> are imported from
  \<^verbatim>\<open>torchvision.ops\<close> (line 20 of the module); they are modelled from the definitions
  of that library (torchvision/ops/boxes.py):
  \<^verbatim>\<open>
  def clip_boxes_to_image(boxes, size):
      dim = boxes.dim()
      boxes_x = boxes[..., 0::2]
      boxes_y = boxes[..., 1::2]
      height, width = size
      boxes_x = boxes_x.clamp(min=0, max=width)
      boxes_y = boxes_y.clamp(min=0, max=height)
      clipped_boxes = torch.stack((boxes_x, boxes_y), dim=dim)
      return clipped_boxes.reshape(boxes.shape)

  def remove_small_boxes(boxes, min_size):
      ws, hs = boxes[:, 2] - boxes[:, 0], boxes[:, 3] - boxes[:, 1]
      keep = (ws >= min_size) & (hs >= min_size)
      keep = torch.where(keep)[0]
      return keep
  \<close>
  \<^verbatim>\<open>Tensor.clamp(min, max)\<close> is \<^verbatim>\<open>min(max(x, min), max)\<close> on every entry. On the
  tensor of shape \<^verbatim>\<open>[0]\<close> the clipping has nothing to clamp and returns the same
  shape; \<^verbatim>\<open>boxes[:, 2]\<close> on that one-dimensional tensor raises \<^verbatim>\<open>IndexError\<close> (too
  many indices).
\<close>

definition clamp :: "int \<Rightarrow> int \<Rightarrow> int \<Rightarrow> int" where
  "clamp lo hi x = min (max x lo) hi"

fun clip_box :: "int \<times> int \<Rightarrow> box \<Rightarrow> box" where
  "clip_box (height, width) (x1, y1, x2, y2) =
     (clamp 0 width x1, clamp 0 height y1, clamp 0 width x2, clamp 0 height y2)"

fun clip_boxes_to_image :: "boxes_tensor \<Rightarrow> int64 \<times> int64 \<Rightarrow> boxes_tensor" where
  "clip_boxes_to_image Tensor0 (height, width) = Tensor0"
| "clip_boxes_to_image (TensorN4 bs) (height, width) =
     TensorN4 (map (clip_box (sint height, sint width)) bs)"

fun ws :: "box \<Rightarrow> int" where
  "ws (x1, y1, x2, y2) = x2 - x1"

fun hs :: "box \<Rightarrow> int" where
  "hs (x1, y1, x2, y2) = y2 - y1"

fun remove_small_boxes :: "boxes_tensor \<Rightarrow> int64 \<Rightarrow> error + nat list" where
  "remove_small_boxes Tensor0 min_size = Inl IndexError"
| "remove_small_boxes (TensorN4 bs) min_size =
     Inr (filter (\<lambda>i. ws (bs ! i) \<ge> sint min_size \<and> hs (bs ! i) \<ge> sint min_size)
            [0..<length bs])"

text \<open>
  Indexing by a tensor of indices, \<^verbatim>\<open>t[indices]\<close>: the selected rows (entries) in the
  order of the indices; an index beyond the first dimension raises \<^verbatim>\<open>IndexError\<close>.
  The indices here come from \<^verbatim>\<open>torch.where\<close> and are never negative.
\<close>

definition index_select :: "'a list \<Rightarrow> nat list \<Rightarrow> error + 'a list" where
  "index_select xs indices =
     (if \<forall>i \<in> set indices. i < length xs then Inr (map (\<lambda>i. xs ! i) indices)
      else Inl IndexError)"

fun index_boxes :: "boxes_tensor \<Rightarrow> nat list \<Rightarrow> error + boxes_tensor" where
  "index_boxes Tensor0 indices = (if indices = [] then Inr Tensor0 else Inl IndexError)"
| "index_boxes (TensorN4 bs) indices =
     (case index_select bs indices of Inl e \<Rightarrow> Inl e | Inr bs' \<Rightarrow> Inr (TensorN4 bs'))"

subsection \<open>\<^verbatim>\<open>_filter_boxes\<close>\<close>

definition filter_boxes ::
  "int64 \<times> int64 \<Rightarrow> int64 \<Rightarrow> boxes_tensor \<Rightarrow> int list option
     \<Rightarrow> error + (boxes_tensor \<times> int list option)" where
  "filter_boxes image_size min_size boxes labels =
     (let boxes = clip_boxes_to_image boxes image_size in
      case remove_small_boxes boxes min_size of
        Inl e \<Rightarrow> Inl e
      | Inr indices \<Rightarrow>
          (case index_boxes boxes indices of
             Inl e \<Rightarrow> Inl e
           | Inr boxes' \<Rightarrow>
               (case labels of
                  None \<Rightarrow> Inr (boxes', None)
                | Some ls \<Rightarrow>
                    (case index_select ls indices of
                       Inl e \<Rightarrow> Inl e
                     | Inr ls' \<Rightarrow> Inr (boxes', Some ls')))))"

subsection \<open>What the specification says of the filter\<close>

text \<open>
  The specification speaks of the clipped width and height of a box and of the boxes
  that are too small; these are its words, stated on one box.
\<close>

definition clipped_width :: "int \<times> int \<Rightarrow> box \<Rightarrow> int" where
  "clipped_width image_size b = ws (clip_box image_size b)"

definition clipped_height :: "int \<times> int \<Rightarrow> box \<Rightarrow> int" where
  "clipped_height image_size b = hs (clip_box image_size b)"

definition too_small :: "int \<times> int \<Rightarrow> int \<Rightarrow> box \<Rightarrow> bool" where
  "too_small image_size m b \<longleftrightarrow>
     clipped_width image_size b < m \<or> clipped_height image_size b < m"

text \<open>
  A box with its \<open>x\<close> coordinates in the half-open range \<open>[0, W)\<close> and its \<open>y\<close>
  coordinates in \<open>[0, H)\<close>, and the same with the closed ranges \<open>[0, W]\<close> and
  \<open>[0, H]\<close>.
\<close>

fun in_half_open :: "int \<times> int \<Rightarrow> box \<Rightarrow> bool" where
  "in_half_open (H, W) (x1, y1, x2, y2) \<longleftrightarrow>
     0 \<le> x1 \<and> x1 < W \<and> 0 \<le> x2 \<and> x2 < W \<and> 0 \<le> y1 \<and> y1 < H \<and> 0 \<le> y2 \<and> y2 < H"

fun in_closed :: "int \<times> int \<Rightarrow> box \<Rightarrow> bool" where
  "in_closed (H, W) (x1, y1, x2, y2) \<longleftrightarrow>
     0 \<le> x1 \<and> x1 \<le> W \<and> 0 \<le> x2 \<and> x2 \<le> W \<and> 0 \<le> y1 \<and> y1 \<le> H \<and> 0 \<le> y2 \<and> y2 \<le> H"

text \<open>
  Clipping into a closed range, in the words of the amended specification: a
  coordinate below 0 becomes 0, a coordinate above the bound becomes the bound, any
  other coordinate stays. A box is clipped coordinate by coordinate, \<open>x\<close> against the
  width and \<open>y\<close> against the height; the keep-mask holds for a box when both of its
  sides are at least the minimum.
\<close>

definition clip_to :: "int \<Rightarrow> int \<Rightarrow> int" where
  "clip_to bound x = (if x < 0 then 0 else if bound < x then bound else x)"

fun clipped :: "int \<times> int \<Rightarrow> box \<Rightarrow> box" where
  "clipped (H, W) (x1, y1, x2, y2) = (clip_to W x1, clip_to H y1, clip_to W x2, clip_to H y2)"

fun keeps :: "int \<Rightarrow> box \<Rightarrow> bool" where
  "keeps m (x1, y1, x2, y2) \<longleftrightarrow> m \<le> x2 - x1 \<and> m \<le> y2 - y1"

text \<open>The 64-bit range, and the image size read as a pair of integers.\<close>

definition in_int64 :: "int \<Rightarrow> bool" where
  "in_int64 x \<longleftrightarrow> - (2 ^ 63) \<le> x \<and> x < 2 ^ 63"

fun size_ints :: "int64 \<times> int64 \<Rightarrow> int \<times> int" where
  "size_ints (height, width) = (sint height, sint width)"

text \<open>Labels parallel to \<open>N\<close> boxes: absent, or a tensor of length \<open>N\<close>.\<close>

definition parallel_labels :: "box list \<Rightarrow> int list option \<Rightarrow> bool" where
  "parallel_labels bs labels \<longleftrightarrow>
     (case labels of None \<Rightarrow> True | Some ls \<Rightarrow> length ls = length bs)"

section \<open>Python and library operations the class uses\<close>

text \<open>Running a step that may raise, then the rest: the first exception ends the run.\<close>

definition and_then :: "error + 'a \<Rightarrow> ('a \<Rightarrow> error + 'b) \<Rightarrow> error + 'b" where
  "and_then m f = (case m of Inl e \<Rightarrow> Inl e | Inr x \<Rightarrow> f x)"

text \<open>A list comprehension \<^verbatim>\<open>[f(x) for x in xs]\<close> whose body may raise.\<close>

fun comprehension :: "('a \<Rightarrow> error + 'b) \<Rightarrow> 'a list \<Rightarrow> error + 'b list" where
  "comprehension f [] = Inr []"
| "comprehension f (x # xs) =
     and_then (f x) (\<lambda>y. and_then (comprehension f xs) (\<lambda>ys. Inr (y # ys)))"

text \<open>\<^verbatim>\<open>d[k]\<close> on a dict, kept as an association list in insertion order.\<close>

definition dict_get :: "('k \<times> 'v) list \<Rightarrow> 'k \<Rightarrow> error + 'v" where
  "dict_get d k = (case map_of d k of None \<Rightarrow> Inl KeyError | Some v \<Rightarrow> Inr v)"

text \<open>\<^verbatim>\<open>xs[i]\<close> on a list: a negative index counts from the end.\<close>

definition list_get :: "'a list \<Rightarrow> int \<Rightarrow> error + 'a" where
  "list_get xs i =
     (if 0 \<le> i \<and> i < int (length xs) then Inr (xs ! nat i)
      else if i < 0 \<and> - int (length xs) \<le> i then Inr (xs ! nat (int (length xs) + i))
      else Inl IndexError)"

text \<open>\<^verbatim>\<open>min\<close> and \<^verbatim>\<open>max\<close> of a sequence: \<^verbatim>\<open>ValueError\<close> on the empty one.\<close>

fun minimum :: "int list \<Rightarrow> error + int" where
  "minimum [] = Inl ValueError"
| "minimum (x # xs) = Inr (fold min xs x)"

fun maximum :: "int list \<Rightarrow> error + int" where
  "maximum [] = Inl ValueError"
| "maximum (x # xs) = Inr (fold max xs x)"

text \<open>
  \<^verbatim>\<open>os.path.join(a, b)\<close> and \<^verbatim>\<open>os.path.basename(p)\<close> of posixpath, and
  \<^verbatim>\<open>s.replace(old, new)\<close> for a non-empty \<open>old\<close> (it is \<^verbatim>\<open>'RGB'\<close> or \<^verbatim>\<open>'.tif'\<close> at
  every call): the occurrences are replaced from left to right, without overlap.
\<close>

definition join :: "string \<Rightarrow> string \<Rightarrow> string" where
  "join a b =
     (if b \<noteq> [] \<and> hd b = CHR ''/'' then b
      else if a = [] \<or> last a = CHR ''/'' then a @ b
      else a @ ''/'' @ b)"

definition basename :: "string \<Rightarrow> string" where
  "basename p = rev (takeWhile (\<lambda>c. c \<noteq> CHR ''/'') (rev p))"

function replace :: "string \<Rightarrow> string \<Rightarrow> string \<Rightarrow> string" where
  "replace old new [] = []"
| "replace old new (c # cs) =
     (if old \<noteq> [] \<and> prefix old (c # cs)
      then new @ replace old new (drop (length old) (c # cs))
      else c # replace old new cs)"
  by pat_completeness auto
termination
  by (relation "measure (\<lambda>(old, new, s). length s)") auto

section \<open>The class attributes\<close>

text \<open>The dict \<^verbatim>\<open>classes\<close>, in the order of the source; its keys are the species codes.\<close>

definition classes :: "(string \<times> string) list" where
  "classes =
    [(''ACPE'', ''Acer pensylvanicum L.''),
     (''ACRU'', ''Acer rubrum L.''),
     (''ACSA3'', ''Acer saccharum Marshall''),
     (''AMLA'', ''Amelanchier laevis Wiegand''),
     (''BETUL'', ''Betula sp.''),
     (''CAGL8'', ''Carya glabra (Mill.) Sweet''),
     (''CATO6'', ''Carya tomentosa (Lam.) Nutt.''),
     (''FAGR'', ''Fagus grandifolia Ehrh.''),
     (''GOLA'', ''Gordonia lasianthus (L.) Ellis''),
     (''LITU'', ''Liriodendron tulipifera L.''),
     (''LYLU3'', ''Lyonia lucida (Lam.) K. Koch''),
     (''MAGNO'', ''Magnolia sp.''),
     (''NYBI'', ''Nyssa biflora Walter''),
     (''NYSY'', ''Nyssa sylvatica Marshall''),
     (''OXYDE'', ''Oxydendrum sp.''),
     (''PEPA37'', ''Persea palustris (Raf.) Sarg.''),
     (''PIEL'', ''Pinus elliottii Engelm.''),
     (''PIPA2'', ''Pinus palustris Mill.''),
     (''PINUS'', ''Pinus sp.''),
     (''PITA'', ''Pinus taeda L.''),
     (''PRSE2'', ''Prunus serotina Ehrh.''),
     (''QUAL'', ''Quercus alba L.''),
     (''QUCO2'', ''Quercus coccinea''),
     (''QUGE2'', ''Quercus geminata Small''),
     (''QUHE2'', ''Quercus hemisphaerica W. Bartram ex Willd.''),
     (''QULA2'', ''Quercus laevis Walter''),
     (''QULA3'', ''Quercus laurifolia Michx.''),
     (''QUMO4'', ''Quercus montana Willd.''),
     (''QUNI'', ''Quercus nigra L.''),
     (''QURU'', ''Quercus rubra L.''),
     (''QUERC'', ''Quercus sp.''),
     (''ROPS'', ''Robinia pseudoacacia L.''),
     (''TSCA'', ''Tsuga canadensis (L.) Carriere'')]"

definition metadata :: "(string \<times> (string \<times> string) list) list" where
  "metadata =
    [(''train'',
        [(''url'', ''https://zenodo.org/record/3934932/files/IDTREES_competition_train_v2.zip?download=1''),
         (''md5'', ''5ddfa76240b4bb6b4a7861d1d31c299c''),
         (''filename'', ''IDTREES_competition_train_v2.zip'')]),
     (''test'',
        [(''url'', ''https://zenodo.org/record/3934932/files/IDTREES_competition_test_v2.zip?download=1''),
         (''md5'', ''b108931c84a70f2a38a8234290131c9b''),
         (''filename'', ''IDTREES_competition_test_v2.zip'')])]"

definition directories :: "(string \<times> string list) list" where
  "directories = [(''train'', [''train'']), (''test'', [''task1'', ''task2''])]"

definition image_size :: "nat \<times> nat" where
  "image_size = (200, 200)"

text \<open>
  \<^verbatim>\<open>__init__\<close>, lines 189 to 191: iterating the dict \<^verbatim>\<open>classes\<close> yields its keys in
  order; each dict comprehension stores one entry per pair of \<^verbatim>\<open>enumerate\<close>, a later
  one replacing an earlier one with the same key.
\<close>

definition codes :: "string list" where
  "codes = map fst classes"

definition dict_of :: "('k \<times> 'v) list \<Rightarrow> ('k \<rightharpoonup> 'v)" where
  "dict_of kvs = fold (\<lambda>(k, v) m. m(k \<mapsto> v)) kvs Map.empty"

definition class2idx :: "string \<rightharpoonup> int" where
  "class2idx = dict_of (map (\<lambda>(i, c). (c, int i)) (List.enumerate 0 codes))"

definition idx2class :: "int \<rightharpoonup> string" where
  "idx2class = dict_of (map (\<lambda>(i, c). (int i, c)) (List.enumerate 0 codes))"

definition num_classes :: "nat" where
  "num_classes = length classes"

section \<open>The dataset object and what it reads\<close>

text \<open>
  A row of the table \<^verbatim>\<open>self.labels\<close> that \<^verbatim>\<open>_load_labels\<close> returns (the label table
  joined with the scene-mapping table, duplicates dropped), with the three columns
  the class reads. A cell that the left join or the file leaves empty is \<open>None\<close>
  (pandas' NaN): it equals no file name and is no key of any dict.
\<close>

record row =
  rsFile :: "string option"
  idcol :: "int option"
  taxonID :: "string option"

text \<open>
  A feature of a shape file: \<^verbatim>\<open>feature['properties']['plotID']\<close> and
  \<^verbatim>\<open>feature['geometry']['coordinates']\<close>, a list of rings of \<open>(x, y)\<close> points. The
  coordinates are geographic; their type is left open.
\<close>

record 'c feature =
  plotID :: string
  coordinates :: "('c \<times> 'c) list list"

text \<open>
  The files behind the dataset. A raster file that \<^verbatim>\<open>rasterio.open\<close> can open has a
  band count and the map \<^verbatim>\<open>f.index(x, y)\<close> from geographic coordinates to
  \<open>(row, col)\<close>; a point cloud that \<^verbatim>\<open>laspy.read\<close> can read has its points. A path
  with no entry cannot be opened. \<^verbatim>\<open>lazy_import('laspy')\<close> raises when the library
  is not installed.
\<close>

record 'c raster_file =
  band_count :: nat
  index :: "'c \<Rightarrow> 'c \<Rightarrow> int \<times> int"

record 'c env =
  raster_files :: "string \<rightharpoonup> 'c raster_file"
  las_files :: "string \<rightharpoonup> ('c \<times> 'c \<times> 'c) list"
  laspy_installed :: bool

datatype dtype = UInt8 | Native

record raster =
  shape :: "nat list"
  dtype :: dtype

datatype 'c tensor =
    Image raster
  | Points "('c \<times> 'c \<times> 'c) list"
  | Boxes boxes_tensor
  | Labels "int list"
  | NoneValue

type_synonym 'c sample = "string \<rightharpoonup> 'c tensor"

record 'c IDTReeS =
  root :: string
  split :: string
  task :: string
  transforms :: "('c sample \<Rightarrow> error + 'c sample) option"
  download :: bool
  checksum :: bool
  images :: "string list"
  geometries :: "(int \<times> 'c feature) list option"
  labels :: "row list option"

subsection \<open>\<^verbatim>\<open>_load_image\<close> and \<^verbatim>\<open>_load_las\<close>\<close>

text \<open>
  \<^verbatim>\<open>f.read(out_shape=self.image_size, ...)\<close> returns an array of shape
  \<^verbatim>\<open>(count, 200, 200)\<close>: every band resampled to \<^verbatim>\<open>image_size\<close>.
\<close>

definition load_image :: "'c env \<Rightarrow> string \<Rightarrow> error + raster" where
  "load_image env path =
     (case raster_files env path of
        None \<Rightarrow> Inl IOError
      | Some f \<Rightarrow> Inr \<lparr>shape = [band_count f, fst image_size, snd image_size], dtype = Native\<rparr>)"

definition load_las :: "'c env \<Rightarrow> string \<Rightarrow> error + ('c \<times> 'c \<times> 'c) list" where
  "load_las env path =
     (if \<not> laspy_installed env then Inl DependencyNotFoundError
      else case las_files env path of None \<Rightarrow> Inl IOError | Some points \<Rightarrow> Inr points)"

subsection \<open>\<^verbatim>\<open>_load_boxes\<close>\<close>

text \<open>\<^verbatim>\<open>geometries[i]['geometry']['coordinates'][0][:4]\<close>\<close>

definition geom_of :: "(int \<times> 'c feature) list option \<Rightarrow> int option \<Rightarrow> error + ('c \<times> 'c) list" where
  "geom_of geoms_dict i =
     (case geoms_dict of
        None \<Rightarrow> Inl TypeError
      | Some g \<Rightarrow>
          (case i of
             None \<Rightarrow> Inl KeyError
           | Some k \<Rightarrow>
               and_then (dict_get g k)
                 (\<lambda>v. case coordinates v of [] \<Rightarrow> Inl IndexError | ring # _ \<Rightarrow> Inr (take 4 ring))))"

text \<open>The body of the loop \<^verbatim>\<open>for geom in geoms\<close>: one box per geometry.\<close>

definition pixel_box :: "('c \<Rightarrow> 'c \<Rightarrow> int \<times> int) \<Rightarrow> ('c \<times> 'c) list \<Rightarrow> error + box" where
  "pixel_box f_index geom =
     (let coords = map (\<lambda>(x, y). f_index x y) geom in
      and_then (minimum (map snd coords)) (\<lambda>xmin.
      and_then (maximum (map snd coords)) (\<lambda>xmax.
      and_then (minimum (map fst coords)) (\<lambda>ymin.
      and_then (maximum (map fst coords)) (\<lambda>ymax.
      Inr (xmin, ymin, xmax, ymax))))))"

text \<open>\<^verbatim>\<open>torch.tensor(boxes)\<close> on a list of rows of four integers.\<close>

definition torch_tensor :: "box list \<Rightarrow> boxes_tensor" where
  "torch_tensor boxes = (if boxes = [] then Tensor0 else TensorN4 boxes)"

definition matching_rows :: "row list \<Rightarrow> string \<Rightarrow> row list" where
  "matching_rows table base_path = filter (\<lambda>r. rsFile r = Some base_path) table"

definition load_boxes :: "'c IDTReeS \<Rightarrow> 'c env \<Rightarrow> string \<Rightarrow> error + boxes_tensor" where
  "load_boxes self env path =
     (let base_path = basename path in
      and_then
        (if split self = ''train'' then
           (case labels self of
              None \<Rightarrow> Inl TypeError
            | Some table \<Rightarrow>
                (let ids = map idcol (matching_rows table base_path)
                 in comprehension (geom_of (geometries self)) ids))
         else
           (case geometries self of
              None \<Rightarrow> Inl AttributeError
            | Some g \<Rightarrow>
                (let ids = map fst (filter (\<lambda>(k, v). plotID v = base_path) g)
                 in comprehension (geom_of (geometries self)) (map Some ids))))
        (\<lambda>geoms.
           case raster_files env path of
             None \<Rightarrow> Inl IOError
           | Some f \<Rightarrow>
               and_then (comprehension (pixel_box (index f)) geoms)
                 (\<lambda>boxes. Inr (torch_tensor boxes))))"

subsection \<open>\<^verbatim>\<open>_load_target\<close>\<close>

definition class_index :: "string option \<Rightarrow> error + int" where
  "class_index c =
     (case c of
        None \<Rightarrow> Inl KeyError
      | Some code \<Rightarrow> (case class2idx code of None \<Rightarrow> Inl KeyError | Some i \<Rightarrow> Inr i))"

definition load_target :: "'c IDTReeS \<Rightarrow> string \<Rightarrow> error + int list" where
  "load_target self path =
     (let base_path = basename path in
      case labels self of
        None \<Rightarrow> Inl TypeError
      | Some table \<Rightarrow>
          (let classes = map taxonID (matching_rows table base_path)
           in comprehension class_index classes))"

subsection \<open>\<^verbatim>\<open>__getitem__\<close>\<close>

text \<open>
  \<^verbatim>\<open>h, w = sample['image'].shape[1:]\<close>: the two sizes, as the 64-bit values handed to
  \<^verbatim>\<open>_filter_boxes\<close> (they are 200 and 200, the sizes \<^verbatim>\<open>_load_image\<close> reads to).
\<close>

definition height_width :: "raster \<Rightarrow> error + (int64 \<times> int64)" where
  "height_width img =
     (case tl (shape img) of [h, w] \<Rightarrow> Inr (of_nat h, of_nat w) | _ \<Rightarrow> Inl ValueError)"

definition label_value :: "int list option \<Rightarrow> 'c tensor" where
  "label_value lbls = (case lbls of None \<Rightarrow> NoneValue | Some ls \<Rightarrow> Labels ls)"

text \<open>The sample before the user's transform: lines 204 to 228.\<close>

definition sample_at :: "'c IDTReeS \<Rightarrow> 'c env \<Rightarrow> int \<Rightarrow> error + 'c sample" where
  "sample_at self env i =
     and_then (list_get (images self) i) (\<lambda>path.
     and_then (load_image env path) (\<lambda>image0.
     let image = image0\<lparr>dtype := UInt8\<rparr> in
     and_then (load_image env (replace ''RGB'' ''HSI'' path)) (\<lambda>hsi.
     and_then (load_image env (replace ''RGB'' ''CHM'' path)) (\<lambda>chm.
     and_then (load_las env (replace ''.tif'' ''.las'' (replace ''RGB'' ''LAS'' path))) (\<lambda>las.
     let sample = [''image'' \<mapsto> Image image, ''hsi'' \<mapsto> Image hsi,
                   ''chm'' \<mapsto> Image chm, ''las'' \<mapsto> Points las] in
     if split self = ''test'' then
       (if task self = ''task2'' then
          and_then (load_boxes self env path) (\<lambda>boxes.
          and_then (height_width image) (\<lambda>hw.
          and_then (filter_boxes hw 1 boxes None) (\<lambda>(boxes', _).
          Inr (sample(''boxes'' \<mapsto> Boxes boxes')))))
        else Inr sample)
     else
       and_then (load_boxes self env path) (\<lambda>boxes.
       and_then (load_target self path) (\<lambda>label.
       and_then (height_width image) (\<lambda>hw.
       and_then (filter_boxes hw 1 boxes (Some label)) (\<lambda>(boxes', label').
       Inr (sample(''boxes'' \<mapsto> Boxes boxes', ''label'' \<mapsto> label_value label')))))))))))"

definition getitem :: "'c IDTReeS \<Rightarrow> 'c env \<Rightarrow> int \<Rightarrow> error + 'c sample" where
  "getitem self env i =
     and_then (sample_at self env i) (\<lambda>sample.
       case transforms self of None \<Rightarrow> Inr sample | Some t \<Rightarrow> t sample)"

section \<open>\<^verbatim>\<open>_verify\<close>\<close>

text \<open>
  The file system is the set of paths for which \<^verbatim>\<open>os.path.exists\<close> holds.
  \<^verbatim>\<open>extract_archive\<close> and \<^verbatim>\<open>download_url\<close> are imported from \<^verbatim>\<open>.utils\<close>; they are
  parameters here: each takes its arguments and the file system, and raises or
  returns the file system it leaves.
\<close>

type_synonym fs = "string set"

record io =
  extract_archive :: "string \<Rightarrow> fs \<Rightarrow> error + fs"
  download_url :: "string \<Rightarrow> string \<Rightarrow> string \<Rightarrow> string option \<Rightarrow> fs \<Rightarrow> error + fs"

definition verify :: "io \<Rightarrow> 'c IDTReeS \<Rightarrow> fs \<Rightarrow> error + fs" where
  "verify io self fs =
     and_then (and_then (dict_get metadata (split self)) (\<lambda>m. dict_get m ''url'')) (\<lambda>url.
     and_then (and_then (dict_get metadata (split self)) (\<lambda>m. dict_get m ''md5'')) (\<lambda>md5.
     and_then (and_then (dict_get metadata (split self)) (\<lambda>m. dict_get m ''filename'')) (\<lambda>filename.
     and_then (dict_get directories (split self)) (\<lambda>directories.
     let exists = map (\<lambda>directory. join (root self) directory \<in> fs) directories in
     if list_all (\<lambda>b. b) exists then Inr fs
     else
       let filepath = join (root self) filename in
       if filepath \<in> fs then extract_archive io filepath fs
       else if \<not> download self then Inl DatasetNotFoundError
       else
         and_then
           (download_url io url (root self) filename
              (if checksum self then Some md5 else None) fs)
           (\<lambda>fs'. extract_archive io (join (root self) filename) fs')))))"

subsection \<open>What the specification says of \<^verbatim>\<open>_verify\<close>\<close>

text \<open>
  The expected subdirectories of a split, its archive file at the root, and the fixed
  URL and checksum of the archive, written out for the two splits.
\<close>

definition expected_dirs :: "string \<Rightarrow> string list" where
  "expected_dirs s = (if s = ''train'' then [''train''] else [''task1'', ''task2''])"

definition archive_name :: "string \<Rightarrow> string" where
  "archive_name s =
     (if s = ''train'' then ''IDTREES_competition_train_v2.zip''
      else ''IDTREES_competition_test_v2.zip'')"

definition archive_url :: "string \<Rightarrow> string" where
  "archive_url s =
     ''https://zenodo.org/record/3934932/files/'' @ archive_name s @ ''?download=1''"

definition archive_md5 :: "string \<Rightarrow> string" where
  "archive_md5 s =
     (if s = ''train'' then ''5ddfa76240b4bb6b4a7861d1d31c299c''
      else ''b108931c84a70f2a38a8234290131c9b'')"

definition dirs_exist :: "'c IDTReeS \<Rightarrow> fs \<Rightarrow> bool" where
  "dirs_exist self fs \<longleftrightarrow> (\<forall>d \<in> set (expected_dirs (split self)). join (root self) d \<in> fs)"

definition archive :: "'c IDTReeS \<Rightarrow> string" where
  "archive self = join (root self) (archive_name (split self))"

subsection \<open>What the specification says of indexed access\<close>

text \<open>
  The four modality files of a scene load; the box derived from one annotation row
  of a train scene (its geometry, projected by the raster of the scene); the row's
  box survives the filter that \<^verbatim>\<open>__getitem__\<close> applies, with the image size of the
  class and the minimum side 1; and the four keys every sample has.
\<close>

definition modalities_load :: "'c env \<Rightarrow> string \<Rightarrow> bool" where
  "modalities_load env path \<longleftrightarrow>
     (case load_image env path of Inl e \<Rightarrow> False | Inr a \<Rightarrow> True) \<and>
     (case load_image env (replace ''RGB'' ''HSI'' path) of Inl e \<Rightarrow> False | Inr a \<Rightarrow> True) \<and>
     (case load_image env (replace ''RGB'' ''CHM'' path) of Inl e \<Rightarrow> False | Inr a \<Rightarrow> True) \<and>
     (case load_las env (replace ''.tif'' ''.las'' (replace ''RGB'' ''LAS'' path)) of
        Inl e \<Rightarrow> False | Inr a \<Rightarrow> True)"

definition derived_box :: "'c IDTReeS \<Rightarrow> 'c env \<Rightarrow> string \<Rightarrow> row \<Rightarrow> error + box" where
  "derived_box self env path r =
     and_then (geom_of (geometries self) (idcol r))
       (\<lambda>geom. case raster_files env path of
                  None \<Rightarrow> Inl IOError
                | Some f \<Rightarrow> pixel_box (index f) geom)"

definition survives :: "'c IDTReeS \<Rightarrow> 'c env \<Rightarrow> string \<Rightarrow> row \<Rightarrow> bool" where
  "survives self env path r \<longleftrightarrow>
     (case derived_box self env path r of
        Inl e \<Rightarrow> False
      | Inr b \<Rightarrow> \<not> too_small (int (fst image_size), int (snd image_size)) 1 b)"

text \<open>
  The file name of a scene, read off its path: what follows the last \<open>/\<close>. The rows of
  the table that belong to a scene are those whose \<^verbatim>\<open>rsFile\<close> is that file name.
\<close>

fun file_name :: "string \<Rightarrow> string" where
  "file_name [] = []"
| "file_name (c # cs) =
     (if CHR ''/'' \<in> set cs then file_name cs else if c = CHR ''/'' then cs else c # cs)"

definition base_keys :: "string set" where
  "base_keys = {''image'', ''hsi'', ''chm'', ''las''}"

text \<open>
  The exceptions that are lookup errors (Python's \<^verbatim>\<open>LookupError\<close>: \<^verbatim>\<open>KeyError\<close> and
  \<^verbatim>\<open>IndexError\<close>), and geometries none of whose rings is empty.
\<close>

definition lookup_error :: "error \<Rightarrow> bool" where
  "lookup_error e \<longleftrightarrow> e = KeyError \<or> e = IndexError"

definition rings_nonempty :: "(int \<times> 'c feature) list \<Rightarrow> bool" where
  "rings_nonempty g \<longleftrightarrow> (\<forall>(k, v) \<in> set g. \<forall>ring \<in> set (coordinates v). ring \<noteq> [])"

section \<open>Example values\<close>

text \<open>
  An extraction that creates \<^verbatim>\<open>data/train\<close> from an archive that is there, and a
  download that stores the archive under its file name.
\<close>

definition io_example :: io where
  "io_example =
     \<lparr>extract_archive = (\<lambda>filepath fs.
        if filepath \<in> fs then Inr (insert ''data/train'' fs) else Inl IOError),
      download_url = (\<lambda>url root filename md5 fs. Inr (insert (join root filename) fs))\<rparr>"

definition train_example :: "unit IDTReeS" where
  "train_example =
     \<lparr>root = ''data'', split = ''train'', task = ''task1'', transforms = None,
      download = False, checksum = False, images = [], geometries = None, labels = None\<rparr>"

text \<open>
  Two scenes, \<^verbatim>\<open>RGB/a.tif\<close> with two annotated crowns and \<^verbatim>\<open>RGB/b.tif\<close> with none,
  over rasters whose \<^verbatim>\<open>index\<close> maps \<open>(x, y)\<close> to row \<open>y\<close> and column \<open>x\<close>; the
  same scenes with a species code that is not in \<^verbatim>\<open>classes\<close>, and as the two test
  tasks.
\<close>

definition raster_example :: "nat \<Rightarrow> int raster_file" where
  "raster_example n = \<lparr>band_count = n, index = (\<lambda>x y. (y, x))\<rparr>"

definition env_example :: "int env" where
  "env_example =
     \<lparr>raster_files =
        [''RGB/a.tif'' \<mapsto> raster_example 3, ''HSI/a.tif'' \<mapsto> raster_example 369,
         ''CHM/a.tif'' \<mapsto> raster_example 1, ''RGB/b.tif'' \<mapsto> raster_example 3,
         ''HSI/b.tif'' \<mapsto> raster_example 369, ''CHM/b.tif'' \<mapsto> raster_example 1],
      las_files = [''LAS/a.las'' \<mapsto> [(1, 2, 3)], ''LAS/b.las'' \<mapsto> []],
      laspy_installed = True\<rparr>"

definition scene_example :: "int IDTReeS" where
  "scene_example =
     \<lparr>root = ''data'', split = ''train'', task = ''task1'', transforms = None,
      download = False, checksum = False,
      images = [''RGB/a.tif'', ''RGB/b.tif''],
      geometries = Some
        [(7, \<lparr>plotID = ''a.tif'', coordinates = [[(10, 20), (30, 20), (30, 50), (10, 50), (10, 20)]]\<rparr>),
         (8, \<lparr>plotID = ''a.tif'', coordinates = [[(190, 20), (250, 20), (250, 20), (190, 20)]]\<rparr>)],
      labels = Some
        [\<lparr>rsFile = Some ''a.tif'', idcol = Some 7, taxonID = Some ''ACRU''\<rparr>,
         \<lparr>rsFile = Some ''a.tif'', idcol = Some 8, taxonID = Some ''TSCA''\<rparr>,
         \<lparr>rsFile = None, idcol = None, taxonID = Some ''PITA''\<rparr>]\<rparr>"

definition scene_unknown :: "int IDTReeS" where
  "scene_unknown =
     scene_example\<lparr>labels := Some [\<lparr>rsFile = Some ''a.tif'', idcol = Some 7, taxonID = Some ''OAK''\<rparr>]\<rparr>"

text \<open>A table that also holds a row of another scene, \<^verbatim>\<open>c.tif\<close>, with a crown that survives.\<close>

definition scene_shared :: "int IDTReeS" where
  "scene_shared =
     scene_example\<lparr>labels := Some
        [\<lparr>rsFile = Some ''a.tif'', idcol = Some 7, taxonID = Some ''ACRU''\<rparr>,
         \<lparr>rsFile = Some ''c.tif'', idcol = Some 7, taxonID = Some ''QUAL''\<rparr>,
         \<lparr>rsFile = Some ''a.tif'', idcol = Some 8, taxonID = Some ''TSCA''\<rparr>]\<rparr>"

definition scene_task1 :: "int IDTReeS" where
  "scene_task1 = scene_example\<lparr>split := ''test'', task := ''task1'', labels := None, geometries := None\<rparr>"

definition scene_task2 :: "int IDTReeS" where
  "scene_task2 = scene_example\<lparr>split := ''test'', task := ''task2'', labels := None\<rparr>"

section \<open>Properties of the box filter\<close>

subsection \<open>Selecting by index\<close>

lemma select_by_index:
  "map (\<lambda>i. xs ! i) (filter (\<lambda>i. P (xs ! i)) [0..<length xs]) = filter P xs"
proof (induction xs rule: rev_induct)
  case Nil
  show ?case by simp
next
  case (snoc x xs)
  have "map (\<lambda>i. (xs @ [x]) ! i) (filter (\<lambda>i. P ((xs @ [x]) ! i)) [0..<length xs])
        = map (\<lambda>i. xs ! i) (filter (\<lambda>i. P (xs ! i)) [0..<length xs])"
    by (rule trans [OF map_cong [OF refl] arg_cong [OF filter_cong [OF refl]]])
       (simp_all add: nth_append)
  with snoc show ?case by simp
qed

lemma select_by_index_zip:
  assumes "length ls = length bs"
  shows "map (\<lambda>i. ls ! i) (filter (\<lambda>i. P (bs ! i)) [0..<length bs])
         = map snd (filter (\<lambda>(b, l). P b) (zip bs ls))"
proof -
  let ?zs = "zip bs ls"
  have len: "length ?zs = length bs" using assms by simp
  have "map snd (filter (\<lambda>(b, l). P b) ?zs)
        = map snd (map (\<lambda>i. ?zs ! i) (filter (\<lambda>i. (\<lambda>(b, l). P b) (?zs ! i)) [0..<length ?zs]))"
    by (simp only: select_by_index)
  also have "\<dots> = map (\<lambda>i. ls ! i) (filter (\<lambda>i. P (bs ! i)) [0..<length bs])"
    unfolding len map_map
    by (rule trans [OF map_cong [OF refl] arg_cong [OF filter_cong [OF refl]]])
       (simp_all add: assms)
  finally show ?thesis by simp
qed

lemma index_select_kept:
  "length xs \<ge> n \<Longrightarrow>
   index_select xs (filter Q [0..<n]) = Inr (map (\<lambda>i. xs ! i) (filter Q [0..<n]))"
  by (auto simp: index_select_def)

lemma length_filter_zip:
  "length ls = length bs \<Longrightarrow>
   length (filter (\<lambda>(b, l). P b) (zip bs ls)) = length (filter P bs)"
  by (induction bs ls rule: list_induct2') auto

lemma filter_all_kept: "\<forall>x \<in> set xs. P x \<Longrightarrow> filter P xs = xs"
  by simp

lemma refilter_labels:
  assumes "length ls = length bs" and "\<forall>b \<in> set bs. P b"
  shows "map snd (filter (\<lambda>(b, l). P b) (zip bs ls)) = ls"
proof -
  have "filter (\<lambda>(b, l). P b) (zip bs ls) = zip bs ls"
    using assms(2) by (auto simp: filter_id_conv dest: set_zip_leftD)
  then show ?thesis using assms(1) by simp
qed

lemma length_select_by_index:
  "length (filter (\<lambda>i. P (xs ! i)) [0..<length xs]) = length (filter P xs)"
  using arg_cong [OF select_by_index [of xs P], of length] by simp


subsection \<open>Clipping and the size test\<close>

lemma sint_int64: "in_int64 (sint (w :: int64))"
  using sint_ge [of w] sint_lt [of w] by (simp add: in_int64_def)

lemma clamp_closed: "0 \<le> hi \<Longrightarrow> 0 \<le> clamp 0 hi x \<and> clamp 0 hi x \<le> hi"
  by (simp add: clamp_def)

lemma clamp_idem: "clamp 0 hi (clamp 0 hi x) = clamp 0 hi x"
  by (simp add: clamp_def)

lemma clamp_clip_to: "0 \<le> hi \<Longrightarrow> clamp 0 hi x = clip_to hi x"
  by (simp add: clamp_def clip_to_def)

lemma clamp_int64: "in_int64 hi \<Longrightarrow> in_int64 (clamp 0 hi x)"
  by (auto simp: clamp_def in_int64_def min_def max_def)

lemma clamp_difference_int64:
  "in_int64 hi \<Longrightarrow> in_int64 (clamp 0 hi x - clamp 0 hi y)"
  by (auto simp: clamp_def in_int64_def min_def max_def)

text \<open>
  The values the filter computes lie in the 64-bit range, whatever the entries: the
  model's integer arithmetic is the tensor's.
\<close>

lemma filter_values_int64:
  assumes "clip_box (size_ints sz) b = (x1, y1, x2, y2)"
  shows "in_int64 x1 \<and> in_int64 y1 \<and> in_int64 x2 \<and> in_int64 y2 \<and>
         in_int64 (ws (x1, y1, x2, y2)) \<and> in_int64 (hs (x1, y1, x2, y2))"
proof -
  obtain H W where sz: "sz = (H, W)" by (cases sz)
  obtain a1 b1 a2 b2 where b: "b = (a1, b1, a2, b2)" by (cases b)
  have h: "in_int64 (sint H)" and w: "in_int64 (sint W)" by (rule sint_int64)+
  from assms sz b show ?thesis
    using clamp_int64 [OF h] clamp_int64 [OF w] clamp_difference_int64 [OF h]
      clamp_difference_int64 [OF w]
    by auto
qed

lemma clip_box_idem: "clip_box sz (clip_box sz b) = clip_box sz b"
  by (cases sz; cases b) (simp add: clamp_idem)

lemma clip_box_clipped: "0 \<le> H \<Longrightarrow> 0 \<le> W \<Longrightarrow> clip_box (H, W) b = clipped (H, W) b"
  by (cases b) (simp add: clamp_clip_to)

lemma clipped_closed: "0 \<le> H \<Longrightarrow> 0 \<le> W \<Longrightarrow> in_closed (H, W) (clipped (H, W) b)"
  by (cases b) (simp add: clip_to_def)

lemma keeps_iff: "keeps m c \<longleftrightarrow> ws c \<ge> m \<and> hs c \<ge> m"
  by (cases c) auto

lemma keep_iff_not_too_small:
  "(ws (clip_box sz b) \<ge> m \<and> hs (clip_box sz b) \<ge> m) \<longleftrightarrow> \<not> too_small sz m b"
  by (auto simp: too_small_def clipped_width_def clipped_height_def)

lemma too_small_clip: "too_small sz m (clip_box sz b) = too_small sz m b"
  by (simp add: too_small_def clipped_width_def clipped_height_def clip_box_idem)

lemma refilter_boxes:
  "map (clip_box sz) (filter (\<lambda>b. \<not> too_small sz m b)
      (map (clip_box sz) (filter (\<lambda>b. \<not> too_small sz m b) bs)))
   = map (clip_box sz) (filter (\<lambda>b. \<not> too_small sz m b) bs)"
  by (simp add: filter_map comp_def too_small_clip clip_box_idem)

subsection \<open>The filter on a tensor of shape \<^verbatim>\<open>[N, 4]\<close>\<close>

lemma clip_N4:
  "clip_boxes_to_image (TensorN4 bs) sz = TensorN4 (map (clip_box (size_ints sz)) bs)"
  by (cases sz) simp

lemma remove_small_N4:
  "remove_small_boxes (clip_boxes_to_image (TensorN4 bs) sz) m
   = Inr (filter (\<lambda>i. \<not> too_small (size_ints sz) (sint m) (bs ! i)) [0..<length bs])"
proof -
  have "filter (\<lambda>i. ws (map (clip_box (size_ints sz)) bs ! i) \<ge> sint m \<and>
                    hs (map (clip_box (size_ints sz)) bs ! i) \<ge> sint m) [0..<length bs]
        = filter (\<lambda>i. \<not> too_small (size_ints sz) (sint m) (bs ! i)) [0..<length bs]"
    by (rule filter_cong [OF refl]) (simp add: keep_iff_not_too_small)
  then show ?thesis by (simp add: clip_N4)
qed

lemma index_boxes_N4:
  "index_boxes (clip_boxes_to_image (TensorN4 bs) sz)
     (filter (\<lambda>i. \<not> too_small (size_ints sz) (sint m) (bs ! i)) [0..<length bs])
   = Inr (TensorN4 (map (clip_box (size_ints sz))
                      (filter (\<lambda>b. \<not> too_small (size_ints sz) (sint m) b) bs)))"
proof -
  let ?S = "size_ints sz"
  let ?idx = "filter (\<lambda>i. \<not> too_small ?S (sint m) (bs ! i)) [0..<length bs]"
  have "map (\<lambda>i. map (clip_box ?S) bs ! i) ?idx = map (clip_box ?S) (map (\<lambda>i. bs ! i) ?idx)"
    by simp
  also have "map (\<lambda>i. bs ! i) ?idx = filter (\<lambda>b. \<not> too_small ?S (sint m) b) bs"
    by (rule select_by_index)
  finally show ?thesis
    using index_select_kept [of "length bs" "map (clip_box ?S) bs"
        "\<lambda>i. \<not> too_small ?S (sint m) (bs ! i)"]
    by (simp add: clip_N4)
qed

text \<open>What the filter returns on such a tensor, read at the kept indices.\<close>

lemma filter_boxes_by_index:
  assumes "filter_boxes sz m (TensorN4 bs) lbls = Inr out"
  shows "out = (TensorN4 (map (\<lambda>i. clip_box (size_ints sz) (bs ! i))
                   (filter (\<lambda>i. \<not> too_small (size_ints sz) (sint m) (bs ! i)) [0..<length bs])),
                map_option (\<lambda>ls. map (\<lambda>i. ls ! i)
                   (filter (\<lambda>i. \<not> too_small (size_ints sz) (sint m) (bs ! i)) [0..<length bs])) lbls)"
proof -
  let ?S = "size_ints sz"
  let ?keep = "\<lambda>b. \<not> too_small ?S (sint m) b"
  let ?idx = "filter (\<lambda>i. ?keep (bs ! i)) [0..<length bs]"
  have "map (\<lambda>i. clip_box ?S (bs ! i)) ?idx = map (clip_box ?S) (map (\<lambda>i. bs ! i) ?idx)"
    by (simp add: comp_def)
  also have "map (\<lambda>i. bs ! i) ?idx = filter ?keep bs"
    by (rule select_by_index)
  finally have b: "map (\<lambda>i. clip_box ?S (bs ! i)) ?idx = map (clip_box ?S) (filter ?keep bs)" .
  show ?thesis
  proof (cases lbls)
    case None
    with assms show ?thesis
      unfolding b
      by (auto simp: filter_boxes_def Let_def remove_small_N4 index_boxes_N4
          simp del: clip_boxes_to_image.simps remove_small_boxes.simps index_boxes.simps
          split: sum.splits)
  next
    case (Some ls)
    with assms obtain ls' where "index_select ls ?idx = Inr ls'"
      and o: "out = (TensorN4 (map (clip_box ?S) (filter ?keep bs)), Some ls')"
      by (auto simp: filter_boxes_def Let_def remove_small_N4 index_boxes_N4
          simp del: clip_boxes_to_image.simps remove_small_boxes.simps index_boxes.simps
          split: sum.splits)
    then have "ls' = map (\<lambda>i. ls ! i) ?idx"
      by (auto simp: index_select_def split: if_splits)
    with o Some show ?thesis unfolding b by simp
  qed
qed

lemma filter_boxes_N4:
  assumes "parallel_labels bs lbls"
  shows "filter_boxes sz m (TensorN4 bs) lbls =
         Inr (TensorN4 (map (clip_box (size_ints sz))
                 (filter (\<lambda>b. \<not> too_small (size_ints sz) (sint m) b) bs)),
              map_option (\<lambda>ls. map snd
                 (filter (\<lambda>(b, l). \<not> too_small (size_ints sz) (sint m) b) (zip bs ls))) lbls)"
proof -
  let ?S = "size_ints sz"
  let ?keep = "\<lambda>b. \<not> too_small ?S (sint m) b"
  let ?idx = "filter (\<lambda>i. ?keep (bs ! i)) [0..<length bs]"
  show ?thesis
  proof (cases lbls)
    case None
    then show ?thesis
      by (simp add: filter_boxes_def remove_small_N4 index_boxes_N4
          del: clip_boxes_to_image.simps remove_small_boxes.simps index_boxes.simps)
  next
    case (Some ls)
    with assms have len: "length ls = length bs"
      by (simp add: parallel_labels_def)
    have "index_select ls ?idx = Inr (map (\<lambda>i. ls ! i) ?idx)"
      using index_select_kept [of "length bs" ls] len by simp
    also have "map (\<lambda>i. ls ! i) ?idx = map snd (filter (\<lambda>(b, l). ?keep b) (zip bs ls))"
      using select_by_index_zip [OF len, of ?keep] .
    finally have il: "index_select ls ?idx
                      = Inr (map snd (filter (\<lambda>(b, l). ?keep b) (zip bs ls)))" .
    show ?thesis
      using Some il
      by (simp add: filter_boxes_def remove_small_N4 index_boxes_N4
          del: clip_boxes_to_image.simps remove_small_boxes.simps index_boxes.simps)
  qed
qed

text \<open>Whatever the labels, a pair the filter returns is made of kept boxes and parallel labels.\<close>

lemma filter_boxes_returned:
  assumes "filter_boxes sz m boxes lbls = Inr (boxes', lbls')"
  shows "\<exists>bs. boxes = TensorN4 bs \<and>
           boxes' = TensorN4 (map (clip_box (size_ints sz))
                       (filter (\<lambda>b. \<not> too_small (size_ints sz) (sint m) b) bs)) \<and>
           parallel_labels (map (clip_box (size_ints sz))
                       (filter (\<lambda>b. \<not> too_small (size_ints sz) (sint m) b) bs)) lbls'"
proof (cases boxes)
  case Tensor0
  with assms show ?thesis by (cases sz) (simp add: filter_boxes_def)
next
  case (TensorN4 bs)
  let ?S = "size_ints sz"
  let ?keep = "\<lambda>b. \<not> too_small ?S (sint m) b"
  let ?idx = "filter (\<lambda>i. ?keep (bs ! i)) [0..<length bs]"
  let ?out = "map (clip_box ?S) (filter ?keep bs)"
  have sel: "map (\<lambda>i. clip_box ?S (bs ! i)) ?idx = ?out"
  proof -
    have "map (\<lambda>i. clip_box ?S (bs ! i)) ?idx = map (clip_box ?S) (map (\<lambda>i. bs ! i) ?idx)"
      by (simp add: comp_def)
    also have "map (\<lambda>i. bs ! i) ?idx = filter ?keep bs"
      by (rule select_by_index)
    finally show ?thesis .
  qed
  from filter_boxes_by_index [OF assms [unfolded TensorN4]]
  have b: "boxes' = TensorN4 ?out" and l: "lbls' = map_option (\<lambda>ls. map (\<lambda>i. ls ! i) ?idx) lbls"
    by (simp_all add: sel)
  have "length ?idx = length ?out"
    using length_select_by_index [of ?keep bs] by simp
  with l have "parallel_labels ?out lbls'"
    by (cases lbls) (simp_all add: parallel_labels_def)
  with TensorN4 b show ?thesis by blast
qed

lemma filter_boxes_Tensor0: "filter_boxes sz m Tensor0 lbls = Inl IndexError"
  by (cases sz) (simp add: filter_boxes_def)

text \<open>With a non-negative size, the library's clipping and size test are those of the specification.\<close>

lemma clip_box_fun: "0 \<le> H \<Longrightarrow> 0 \<le> W \<Longrightarrow> clip_box (H, W) = clipped (H, W)"
  by (rule ext) (rule clip_box_clipped)

lemma not_too_small_keeps:
  "0 \<le> H \<Longrightarrow> 0 \<le> W \<Longrightarrow> \<not> too_small (H, W) m b \<longleftrightarrow> keeps m (clipped (H, W) b)"
  unfolding keeps_iff keep_iff_not_too_small [symmetric]
  by (simp only: clip_box_clipped)

lemma kept_clipped:
  assumes "0 \<le> H" and "0 \<le> W"
  shows "map (clip_box (H, W)) (filter (\<lambda>b. \<not> too_small (H, W) m b) bs)
         = filter (keeps m) (map (clipped (H, W)) bs)"
proof -
  have "filter (keeps m) (map (clipped (H, W)) bs)
        = map (clipped (H, W)) (filter (\<lambda>b. keeps m (clipped (H, W) b)) bs)"
    by (simp only: filter_map comp_def)
  also have "\<dots> = map (clip_box (H, W)) (filter (\<lambda>b. \<not> too_small (H, W) m b) bs)"
    by (simp only: clip_box_fun [OF assms] not_too_small_keeps [OF assms])
  finally show ?thesis by (rule sym)
qed

lemma kept_labels_clipped:
  assumes "0 \<le> H" and "0 \<le> W"
  shows "map snd (filter (\<lambda>(b, l). \<not> too_small (H, W) m b) (zip bs ls))
         = map snd (filter (\<lambda>(c, l). keeps m c) (zip (map (clipped (H, W)) bs) ls))"
proof -
  have "filter (\<lambda>(c, l). keeps m c) (zip (map (clipped (H, W)) bs) ls)
        = map (\<lambda>(b, l). (clipped (H, W) b, l))
            (filter (\<lambda>(b, l). keeps m (clipped (H, W) b)) (zip bs ls))"
    by (simp only: zip_map1 filter_map comp_def case_prod_unfold fst_conv snd_conv)
  then have "map snd (filter (\<lambda>(c, l). keeps m c) (zip (map (clipped (H, W)) bs) ls))
        = map snd (filter (\<lambda>(b, l). keeps m (clipped (H, W) b)) (zip bs ls))"
    by (simp add: comp_def case_prod_unfold del: clipped.simps keeps.simps)
  then show ?thesis
    by (simp only: not_too_small_keeps [OF assms])
qed

subsection \<open>Removal, clipping, idempotence, order\<close>

text \<open>
  Claim C1. For every image size \<open>(H, W)\<close> and minimum side length \<open>m\<close> of the 64-bit
  range, box tensor of shape \<^verbatim>\<open>[N, 4]\<close> and optional parallel label tensor of length
  \<open>N\<close>, the filter returns the clipped boxes that are not too small, in their order,
  and removes the others: a box goes exactly when its clipped width or its clipped
  height is strictly less than \<open>m\<close>. The labels, when present, are those paired with
  the boxes that stay.
\<close>

theorem filter_boxes_removes_exactly_small:
  assumes "parallel_labels bs lbls"
  shows "filter_boxes (H, W) m (TensorN4 bs) lbls =
         Inr (TensorN4 (map (clip_box (sint H, sint W))
                 (filter (\<lambda>b. \<not> too_small (sint H, sint W) (sint m) b) bs)),
              map_option (\<lambda>ls. map snd
                 (filter (\<lambda>(b, l). \<not> too_small (sint H, sint W) (sint m) b) (zip bs ls))) lbls)"
  using filter_boxes_N4 [OF assms, of "(H, W)" m] by simp

theorem filter_boxes_removes_exactly_small_witness:
  "parallel_labels [(10, 20, 30, 50), (190, 20, 250, 20), (-5, 0, 0, 9)] (Some [1, 32, 7]) \<and>
   filter_boxes (200, 200) 1 (TensorN4 [(10, 20, 30, 50), (190, 20, 250, 20), (-5, 0, 0, 9)])
     (Some [1, 32, 7]) = Inr (TensorN4 [(10, 20, 30, 50)], Some [1])"
proof -
  have p: "parallel_labels [(10, 20, 30, 50), (190, 20, 250, 20), (-5, 0, 0, 9)] (Some [1, 32, 7])"
    by (simp add: parallel_labels_def)
  show ?thesis
    using p filter_boxes_removes_exactly_small [OF p, of 200 200 1]
    by (simp add: too_small_def clipped_width_def clipped_height_def clamp_def)
qed

text \<open>
  Claim C3, as stated: every coordinate is clipped into the half-open ranges
  \<open>[0, H)\<close> and \<open>[0, W)\<close>. It fails: \<^verbatim>\<open>clamp(min=0, max=width)\<close> keeps the bound
  \<open>width\<close> itself, so in a 200 by 200 image the box \<open>(0, 0, 250, 250)\<close> is clipped to
  \<open>(0, 0, 200, 200)\<close>, and the filter returns it with the coordinate 200.
\<close>

theorem clip_half_open_counterexample:
  "clip_boxes_to_image (TensorN4 [(0, 0, 250, 250)]) (200, 200) = TensorN4 [(0, 0, 200, 200)] \<and>
   filter_boxes (200, 200) 1 (TensorN4 [(0, 0, 250, 250)]) None = Inr (TensorN4 [(0, 0, 200, 200)], None) \<and>
   \<not> in_half_open (200, 200) (0, 0, 200, 200)"
  by (simp add: filter_boxes_def clamp_def index_select_def)

text \<open>
  Claim C3, amended: for an image size \<open>(H, W)\<close> of the 64-bit range with \<open>0 \<le> H\<close> and
  \<open>0 \<le> W\<close>, the filter first clips every box into the closed ranges: an \<open>x\<close>
  coordinate below 0 becomes 0, one above \<open>W\<close> becomes \<open>W\<close> itself, any other stays,
  and likewise a \<open>y\<close> coordinate against \<open>H\<close>, so that every clipped coordinate lies
  in \<open>[0, W]\<close> or \<open>[0, H]\<close>; the keep-mask is then computed on the clipped boxes, and the
  boxes returned are the clipped boxes that the mask keeps.
\<close>

theorem clip_closed_range:
  assumes "0 \<le> sint H" and "0 \<le> sint W"
  shows "clip_boxes_to_image (TensorN4 bs) (H, W) = TensorN4 (map (clipped (sint H, sint W)) bs) \<and>
         (\<forall>b \<in> set bs. in_closed (sint H, sint W) (clipped (sint H, sint W) b)) \<and>
         (\<forall>out. filter_boxes (H, W) m (TensorN4 bs) lbls = Inr out \<longrightarrow>
            fst out = TensorN4 (filter (keeps (sint m)) (map (clipped (sint H, sint W)) bs))) \<and>
         (parallel_labels bs lbls \<longrightarrow>
            filter_boxes (H, W) m (TensorN4 bs) lbls =
              Inr (TensorN4 (filter (keeps (sint m)) (map (clipped (sint H, sint W)) bs)),
                   map_option (\<lambda>ls. map snd (filter (\<lambda>(c, l). keeps (sint m) c)
                      (zip (map (clipped (sint H, sint W)) bs) ls))) lbls))"
proof -
  let ?S = "(sint H, sint W)"
  note out = kept_clipped [OF assms, of "sint m" bs]
  have c1: "clip_boxes_to_image (TensorN4 bs) (H, W) = TensorN4 (map (clipped ?S) bs)"
    by (simp only: clip_boxes_to_image.simps clip_box_fun [OF assms])
  have c2: "\<forall>b \<in> set bs. in_closed ?S (clipped ?S b)"
  proof
    fix b show "in_closed ?S (clipped ?S b)" using assms by (rule clipped_closed)
  qed
  have c3: "\<forall>out. filter_boxes (H, W) m (TensorN4 bs) lbls = Inr out \<longrightarrow>
              fst out = TensorN4 (filter (keeps (sint m)) (map (clipped ?S) bs))"
  proof (intro allI impI)
    fix out assume r: "filter_boxes (H, W) m (TensorN4 bs) lbls = Inr out"
    obtain boxes' lbls' where o: "out = (boxes', lbls')" by (cases out)
    from filter_boxes_returned [OF r [unfolded o]]
    have "boxes' = TensorN4 (map (clip_box ?S) (filter (\<lambda>b. \<not> too_small ?S (sint m) b) bs))"
      by (simp del: clip_box.simps)
    with o show "fst out = TensorN4 (filter (keeps (sint m)) (map (clipped ?S) bs))"
      by (simp only: out fst_conv)
  qed
  have c4: "parallel_labels bs lbls \<longrightarrow>
            filter_boxes (H, W) m (TensorN4 bs) lbls =
              Inr (TensorN4 (filter (keeps (sint m)) (map (clipped ?S) bs)),
                   map_option (\<lambda>ls. map snd (filter (\<lambda>(c, l). keeps (sint m) c)
                      (zip (map (clipped ?S) bs) ls))) lbls)"
  proof
    assume p: "parallel_labels bs lbls"
    have l: "map_option (\<lambda>ls. map snd (filter (\<lambda>(b, l). \<not> too_small ?S (sint m) b) (zip bs ls))) lbls
             = map_option (\<lambda>ls. map snd (filter (\<lambda>(c, l). keeps (sint m) c)
                      (zip (map (clipped ?S) bs) ls))) lbls"
      by (simp only: kept_labels_clipped [OF assms])
    from filter_boxes_N4 [OF p, of "(H, W)" m]
    have "filter_boxes (H, W) m (TensorN4 bs) lbls =
         Inr (TensorN4 (map (clip_box ?S) (filter (\<lambda>b. \<not> too_small ?S (sint m) b) bs)),
              map_option (\<lambda>ls. map snd
                 (filter (\<lambda>(b, l). \<not> too_small ?S (sint m) b) (zip bs ls))) lbls)"
      by (simp only: size_ints.simps)
    then show "filter_boxes (H, W) m (TensorN4 bs) lbls =
              Inr (TensorN4 (filter (keeps (sint m)) (map (clipped ?S) bs)),
                   map_option (\<lambda>ls. map snd (filter (\<lambda>(c, l). keeps (sint m) c)
                      (zip (map (clipped ?S) bs) ls))) lbls)"
      by (simp only: out l)
  qed
  from c1 c2 c3 c4 show ?thesis by (intro conjI)
qed

theorem clip_closed_range_witness:
  "(0::int) \<le> sint (200 :: int64) \<and>
   clip_boxes_to_image (TensorN4 [(-3, 7, 250, 200), (-50, 0, 10, 30), (190, 5, 250, 100)]) (200, 200)
     = TensorN4 [(0, 7, 200, 200), (0, 0, 10, 30), (190, 5, 200, 100)] \<and>
   in_closed (200, 200) (0, 7, 200, 200) \<and>
   filter_boxes (200, 200) 20 (TensorN4 [(-3, 7, 250, 200), (-50, 0, 10, 30), (190, 5, 250, 100)])
     (Some [4, 5, 6])
     = Inr (TensorN4 [(0, 7, 200, 200)], Some [4])"
proof -
  let ?bs = "[(-3, 7, 250, 200), (-50, 0, 10, 30), (190, 5, 250, 100)] :: box list"
  have h: "(0::int) \<le> sint (200 :: int64)" by simp
  have p: "parallel_labels ?bs (Some [4, 5, 6])"
    by (simp add: parallel_labels_def)
  note t = clip_closed_range [OF h h, of ?bs 20 "Some [4, 5, 6]"]
  have e: "map (clipped (sint (200 :: int64), sint (200 :: int64))) ?bs
           = [(0, 7, 200, 200), (0, 0, 10, 30), (190, 5, 200, 100)]"
    by (simp add: clip_to_def)
  from t have "clip_boxes_to_image (TensorN4 ?bs) (200, 200)
               = TensorN4 (map (clipped (sint (200 :: int64), sint (200 :: int64))) ?bs)"
    by (rule conjunct1)
  then have a: "clip_boxes_to_image (TensorN4 ?bs) (200, 200)
               = TensorN4 [(0, 7, 200, 200), (0, 0, 10, 30), (190, 5, 200, 100)]"
    by (simp only: e)
  from t have "parallel_labels ?bs (Some [4, 5, 6]) \<longrightarrow>
            filter_boxes (200, 200) 20 (TensorN4 ?bs) (Some [4, 5, 6]) =
              Inr (TensorN4 (filter (keeps (sint (20 :: int64)))
                     (map (clipped (sint (200 :: int64), sint (200 :: int64))) ?bs)),
                   map_option (\<lambda>ls. map snd (filter (\<lambda>(c, l). keeps (sint (20 :: int64)) c)
                      (zip (map (clipped (sint (200 :: int64), sint (200 :: int64))) ?bs) ls)))
                     (Some [4, 5, 6]))"
    by (elim conjE)
  from this [THEN mp, OF p]
  have b: "filter_boxes (200, 200) 20 (TensorN4 ?bs) (Some [4, 5, 6])
           = Inr (TensorN4 [(0, 7, 200, 200)], Some [4])"
    unfolding e by simp
  have c: "in_closed (200, 200) (0, 7, 200, 200)" by simp
  from h a c b show ?thesis by (intro conjI)
qed

text \<open>
  Claim C4. The filter is idempotent: whatever the image size and the minimum side
  length of the 64-bit range, the box tensor and the labels, a pair of boxes and
  labels that the filter returns is returned unchanged when the filter is applied to
  it with the same image size and minimum side length. The filter does return a pair
  on every box tensor of shape \<^verbatim>\<open>[N, 4]\<close> with labels absent or of length \<open>N\<close>.
\<close>

theorem filter_boxes_idempotent:
  "(\<forall>out. filter_boxes (H, W) m boxes lbls = Inr out \<longrightarrow>
       filter_boxes (H, W) m (fst out) (snd out) = Inr out) \<and>
   (\<forall>bs. boxes = TensorN4 bs \<and> parallel_labels bs lbls \<longrightarrow>
       (\<exists>out. filter_boxes (H, W) m boxes lbls = Inr out))"
proof (intro conjI allI impI)
  fix out assume r: "filter_boxes (H, W) m boxes lbls = Inr out"
  let ?S = "size_ints (H, W)"
  let ?keep = "\<lambda>b. \<not> too_small ?S (sint m) b"
  obtain boxes' lbls' where out: "out = (boxes', lbls')" by (cases out)
  from filter_boxes_returned [OF r [unfolded out]] obtain bs where
    b: "boxes' = TensorN4 (map (clip_box ?S) (filter ?keep bs))" and
    par: "parallel_labels (map (clip_box ?S) (filter ?keep bs)) lbls'"
    by blast
  let ?bs' = "map (clip_box ?S) (filter ?keep bs)"
  have kept: "\<forall>b \<in> set ?bs'. ?keep b"
    by (auto simp: too_small_clip simp del: size_ints.simps)
  have labels_again:
    "map_option (\<lambda>ls. map snd (filter (\<lambda>(b, l). ?keep b) (zip ?bs' ls))) lbls' = lbls'"
  proof (cases lbls')
    case None
    then show ?thesis by simp
  next
    case (Some ls')
    with par have "length ls' = length ?bs'" by (simp add: parallel_labels_def)
    from refilter_labels [OF this kept] Some show ?thesis by simp
  qed
  have "filter_boxes (H, W) m (TensorN4 ?bs') lbls' = Inr (TensorN4 ?bs', lbls')"
    using filter_boxes_N4 [OF par, of "(H, W)" m] by (simp only: refilter_boxes labels_again)
  with out b show "filter_boxes (H, W) m (fst out) (snd out) = Inr out" by simp
next
  fix bs assume "boxes = TensorN4 bs \<and> parallel_labels bs lbls"
  then show "\<exists>out. filter_boxes (H, W) m boxes lbls = Inr out"
    using filter_boxes_N4 [of bs lbls "(H, W)" m] by simp
qed

theorem filter_boxes_idempotent_witness:
  "filter_boxes (200, 200) 1 (TensorN4 [(10, 20, 30, 50), (190, 20, 250, 20), (150, 150, 260, 300)])
     (Some [1, 32, 7]) = Inr (TensorN4 [(10, 20, 30, 50), (150, 150, 200, 200)], Some [1, 7]) \<and>
   filter_boxes (200, 200) 1 (TensorN4 [(10, 20, 30, 50), (150, 150, 200, 200)]) (Some [1, 7])
     = Inr (TensorN4 [(10, 20, 30, 50), (150, 150, 200, 200)], Some [1, 7])"
proof -
  have f: "filter_boxes (200, 200) 1 (TensorN4 [(10, 20, 30, 50), (190, 20, 250, 20), (150, 150, 260, 300)])
     (Some [1, 32, 7]) = Inr (TensorN4 [(10, 20, 30, 50), (150, 150, 200, 200)], Some [1, 7])"
    by (simp add: filter_boxes_def clamp_def index_select_def)
  from filter_boxes_idempotent [THEN conjunct1, THEN spec, THEN mp, OF f] f
  show ?thesis by simp
qed

text \<open>
  Claim C9. The filter keeps order and parallelism: whenever it returns, on a box
  tensor of shape \<^verbatim>\<open>[N, 4]\<close> and for an image size and a minimum side length of the
  64-bit range, there is a strictly increasing list of indices, exactly the indices
  of the boxes that are not too small, such that the returned boxes are the clipped
  input boxes at these indices and the returned labels, when labels are given, are
  the input labels at the same indices; so boxes and labels come out parallel, and
  no more boxes come out than went in. It returns whenever the labels are absent or
  of length \<open>N\<close>.
\<close>

theorem filter_boxes_order_parallel:
  "(\<forall>out. filter_boxes (H, W) m (TensorN4 bs) lbls = Inr out \<longrightarrow>
      (\<exists>indices.
         sorted_wrt (<) indices \<and>
         (\<forall>i. i \<in> set indices \<longleftrightarrow>
                i < length bs \<and> \<not> too_small (sint H, sint W) (sint m) (bs ! i)) \<and>
         out = (TensorN4 (map (\<lambda>i. clip_box (sint H, sint W) (bs ! i)) indices),
                map_option (\<lambda>ls. map (\<lambda>i. ls ! i) indices) lbls) \<and>
         parallel_labels (map (\<lambda>i. clip_box (sint H, sint W) (bs ! i)) indices)
           (map_option (\<lambda>ls. map (\<lambda>i. ls ! i) indices) lbls) \<and>
         length (map (\<lambda>i. clip_box (sint H, sint W) (bs ! i)) indices) \<le> length bs)) \<and>
   (parallel_labels bs lbls \<longrightarrow> (\<exists>out. filter_boxes (H, W) m (TensorN4 bs) lbls = Inr out))"
proof (intro conjI allI impI)
  fix out assume r: "filter_boxes (H, W) m (TensorN4 bs) lbls = Inr out"
  let ?S = "(sint H, sint W)"
  let ?idx = "filter (\<lambda>i. \<not> too_small ?S (sint m) (bs ! i)) [0..<length bs]"
  have s: "sorted_wrt (<) ?idx"
    by (rule sorted_wrt_filter) (simp add: sorted_wrt_upt)
  have mem: "\<forall>i. i \<in> set ?idx \<longleftrightarrow> i < length bs \<and> \<not> too_small ?S (sint m) (bs ! i)"
    by auto
  from filter_boxes_by_index [OF r]
  have o: "out = (TensorN4 (map (\<lambda>i. clip_box ?S (bs ! i)) ?idx),
                  map_option (\<lambda>ls. map (\<lambda>i. ls ! i) ?idx) lbls)"
    by simp
  have par: "parallel_labels (map (\<lambda>i. clip_box ?S (bs ! i)) ?idx)
               (map_option (\<lambda>ls. map (\<lambda>i. ls ! i) ?idx) lbls)"
    by (cases lbls) (simp_all add: parallel_labels_def)
  have n: "length (map (\<lambda>i. clip_box ?S (bs ! i)) ?idx) \<le> length bs"
    using length_filter_le [of "\<lambda>i. \<not> too_small ?S (sint m) (bs ! i)" "[0..<length bs]"] by simp
  from s mem o par n
  show "\<exists>indices.
         sorted_wrt (<) indices \<and>
         (\<forall>i. i \<in> set indices \<longleftrightarrow> i < length bs \<and> \<not> too_small ?S (sint m) (bs ! i)) \<and>
         out = (TensorN4 (map (\<lambda>i. clip_box ?S (bs ! i)) indices),
                map_option (\<lambda>ls. map (\<lambda>i. ls ! i) indices) lbls) \<and>
         parallel_labels (map (\<lambda>i. clip_box ?S (bs ! i)) indices)
           (map_option (\<lambda>ls. map (\<lambda>i. ls ! i) indices) lbls) \<and>
         length (map (\<lambda>i. clip_box ?S (bs ! i)) indices) \<le> length bs"
    by (intro exI [of _ ?idx] conjI)
next
  assume "parallel_labels bs lbls"
  from filter_boxes_N4 [OF this, of "(H, W)" m]
  show "\<exists>out. filter_boxes (H, W) m (TensorN4 bs) lbls = Inr out" by simp
qed

theorem filter_boxes_order_parallel_witness:
  "filter_boxes (200, 200) 1 (TensorN4 [(10, 20, 30, 50), (190, 20, 250, 20), (150, 150, 260, 300)])
     (Some [1, 32, 7]) = Inr (TensorN4 [(10, 20, 30, 50), (150, 150, 200, 200)], Some [1, 7]) \<and>
   (\<exists>indices. sorted_wrt (<) indices \<and>
      (TensorN4 [(10, 20, 30, 50), (150, 150, 200, 200)], Some [1, 7 :: int])
      = (TensorN4 (map (\<lambda>i. clip_box (200, 200)
                 ([(10, 20, 30, 50), (190, 20, 250, 20), (150, 150, 260, 300)] ! i)) indices),
         map_option (\<lambda>ls. map (\<lambda>i. ls ! i) indices) (Some [1, 32, 7])))"
proof -
  have f: "filter_boxes (200, 200) 1 (TensorN4 [(10, 20, 30, 50), (190, 20, 250, 20), (150, 150, 260, 300)])
     (Some [1, 32, 7]) = Inr (TensorN4 [(10, 20, 30, 50), (150, 150, 200, 200)], Some [1, 7])"
    by (simp add: filter_boxes_def clamp_def index_select_def)
  from filter_boxes_order_parallel [THEN conjunct1, THEN spec, THEN mp, OF f]
  obtain indices where "sorted_wrt (<) indices"
    and "(TensorN4 [(10, 20, 30, 50), (150, 150, 200, 200)], Some [1, 7 :: int])
      = (TensorN4 (map (\<lambda>i. clip_box (sint (200 :: int64), sint (200 :: int64))
                 ([(10, 20, 30, 50), (190, 20, 250, 20), (150, 150, 260, 300)] ! i)) indices),
         map_option (\<lambda>ls. map (\<lambda>i. ls ! i) indices) (Some [1, 32, 7]))"
    by (elim exE conjE)
  then show ?thesis using f by (intro conjI exI [of _ indices]) simp_all
qed

section \<open>The class index\<close>

lemma fold_upd_distinct:
  "distinct (map fst kvs) \<Longrightarrow> fold (\<lambda>(k, v) m. m(k \<mapsto> v)) kvs m0 = m0 ++ map_of kvs"
proof (induction kvs arbitrary: m0)
  case Nil
  show ?case by simp
next
  case (Cons kv kvs)
  obtain k v where kv: "kv = (k, v)" by (cases kv)
  from Cons.prems kv have fresh: "map_of kvs k = None" and d: "distinct (map fst kvs)"
    by (auto simp: map_of_eq_None_iff)
  have "fold (\<lambda>(k, v) m. m(k \<mapsto> v)) (kv # kvs) m0
        = fold (\<lambda>(k, v) m. m(k \<mapsto> v)) kvs (m0(k \<mapsto> v))"
    unfolding kv by simp
  also have "\<dots> = (m0(k \<mapsto> v)) ++ map_of kvs"
    by (rule Cons.IH [OF d])
  also have "\<dots> = m0 ++ map_of (kv # kvs)"
    using fresh kv by (auto simp: fun_eq_iff map_add_def split: option.splits)
  finally show ?case .
qed

lemma dict_of_distinct: "distinct (map fst kvs) \<Longrightarrow> dict_of kvs = map_of kvs"
  by (simp add: dict_of_def fold_upd_distinct)

lemma enumerate_code_first:
  "map (\<lambda>(i, c). (c, f i)) (zip ns xs) = zip xs (map f ns)"
  by (induction ns xs rule: list_induct2') auto

lemma enumerate_index_first:
  "map (\<lambda>(i, c). (f i, c)) (zip ns xs) = zip (map f ns) xs"
  by (induction ns xs rule: list_induct2') auto

lemma codes_length: "length codes = 33"
  by (simp add: codes_def classes_def)

lemma codes_distinct: "distinct codes"
  by (simp add: codes_def classes_def)

lemma class2idx_zip: "class2idx = map_of (zip codes (map int [0..<length codes]))"
proof -
  have e: "map (\<lambda>(i, c). (c, int i)) (List.enumerate 0 codes) = zip codes (map int [0..<length codes])"
    by (simp add: enumerate_eq_zip enumerate_code_first)
  show ?thesis
    unfolding class2idx_def e
    by (rule dict_of_distinct) (simp add: codes_distinct)
qed

lemma idx2class_zip: "idx2class = map_of (zip (map int [0..<length codes]) codes)"
proof -
  have e: "map (\<lambda>(i, c). (int i, c)) (List.enumerate 0 codes) = zip (map int [0..<length codes]) codes"
    by (simp add: enumerate_eq_zip enumerate_index_first)
  show ?thesis
    unfolding idx2class_def e
    by (rule dict_of_distinct) (simp add: distinct_map)
qed

lemma class2idx_nth: "i < 33 \<Longrightarrow> class2idx (codes ! i) = Some (int i)"
  using map_of_zip_nth [of codes "map int [0..<length codes]" i]
  by (simp add: class2idx_zip codes_distinct codes_length)

lemma idx2class_nth: "i < 33 \<Longrightarrow> idx2class (int i) = Some (codes ! i)"
  using map_of_zip_nth [of "map int [0..<length codes]" codes i]
  by (simp add: idx2class_zip codes_length distinct_map)

lemma dom_class2idx: "dom class2idx = set codes"
  by (simp add: class2idx_zip dom_map_of_zip)

lemma dom_idx2class: "dom idx2class = {0..<33}"
proof -
  have "dom idx2class = int ` {0..<33}"
    by (simp add: idx2class_zip dom_map_of_zip codes_length)
  also have "\<dots> = {0..<33}"
    by (simp add: image_int_atLeastLessThan)
  finally show ?thesis .
qed

lemma class2idx_range: "class2idx c = Some i \<Longrightarrow> 0 \<le> i \<and> i < 33 \<and> c \<in> set codes \<and> idx2class i = Some c"
proof -
  assume a: "class2idx c = Some i"
  then have "c \<in> set codes" using dom_class2idx by auto
  then obtain k where k: "k < 33" "c = codes ! k"
    by (auto simp: in_set_conv_nth codes_length)
  with a have "i = int k" by (simp add: class2idx_nth)
  with k show ?thesis
    using \<open>c \<in> set codes\<close> by (simp add: idx2class_nth)
qed

text \<open>
  Claim C7. The class index is a bijection between the 33 species codes and the
  integers of \<open>[0, 33)\<close>: \<open>num_classes\<close> is 33; \<open>class2idx\<close> gives every code an
  integer of \<open>[0, 33)\<close> that \<open>idx2class\<close> maps back to the code; \<open>idx2class\<close> gives
  every integer of \<open>[0, 33)\<close> a code that \<open>class2idx\<close> maps back to the integer; two
  codes never share an integer; and the two dicts have no other keys.
\<close>

theorem class_index_bijection:
  "num_classes = 33 \<and>
   (\<forall>c \<in> set codes. \<exists>i. class2idx c = Some i \<and> 0 \<le> i \<and> i < 33 \<and> idx2class i = Some c) \<and>
   (\<forall>i. 0 \<le> i \<and> i < 33 \<longrightarrow> (\<exists>c \<in> set codes. idx2class i = Some c \<and> class2idx c = Some i)) \<and>
   (\<forall>c \<in> set codes. \<forall>d \<in> set codes. class2idx c = class2idx d \<longrightarrow> c = d) \<and>
   dom class2idx = set codes \<and> dom idx2class = {0..<33} \<and>
   bij_betw (\<lambda>c. the (class2idx c)) (set codes) {0..<33}"
proof -
  have n: "num_classes = 33"
    using codes_length by (simp add: num_classes_def codes_def)
  have fwd: "\<forall>c \<in> set codes. \<exists>i. class2idx c = Some i \<and> 0 \<le> i \<and> i < 33 \<and> idx2class i = Some c"
  proof
    fix c assume "c \<in> set codes"
    then obtain i where "class2idx c = Some i" using dom_class2idx by auto
    then show "\<exists>i. class2idx c = Some i \<and> 0 \<le> i \<and> i < 33 \<and> idx2class i = Some c"
      using class2idx_range by blast
  qed
  have bwd: "\<forall>i. 0 \<le> i \<and> i < 33 \<longrightarrow> (\<exists>c \<in> set codes. idx2class i = Some c \<and> class2idx c = Some i)"
  proof (intro allI impI)
    fix i :: int assume "0 \<le> i \<and> i < 33"
    then have k: "nat i < 33" "int (nat i) = i" by auto
    have "codes ! nat i \<in> set codes" using k by (simp add: codes_length)
    moreover have "idx2class i = Some (codes ! nat i)" using idx2class_nth [OF k(1)] k(2) by simp
    moreover have "class2idx (codes ! nat i) = Some i" using class2idx_nth [OF k(1)] k(2) by simp
    ultimately show "\<exists>c \<in> set codes. idx2class i = Some c \<and> class2idx c = Some i" by blast
  qed
  have inj: "\<forall>c \<in> set codes. \<forall>d \<in> set codes. class2idx c = class2idx d \<longrightarrow> c = d"
  proof (intro ballI impI)
    fix c d assume "c \<in> set codes" "d \<in> set codes" and e: "class2idx c = class2idx d"
    from fwd \<open>c \<in> set codes\<close> obtain i where i: "class2idx c = Some i" "idx2class i = Some c" by blast
    from e i(1) have "class2idx d = Some i" by simp
    then have "idx2class i = Some d" using class2idx_range by blast
    with i(2) show "c = d" by simp
  qed
  have bij: "bij_betw (\<lambda>c. the (class2idx c)) (set codes) {0..<33}"
    unfolding bij_betw_def
  proof
    show "inj_on (\<lambda>c. the (class2idx c)) (set codes)"
    proof (rule inj_onI)
      fix c d assume c: "c \<in> set codes" and d: "d \<in> set codes"
        and e: "the (class2idx c) = the (class2idx d)"
      from fwd c d obtain i j where "class2idx c = Some i" "class2idx d = Some j" by blast
      with e have "class2idx c = class2idx d" by simp
      with inj c d show "c = d" by blast
    qed
    show "(\<lambda>c. the (class2idx c)) ` set codes = {0..<33}"
    proof (intro equalityI subsetI)
      fix i assume "i \<in> (\<lambda>c. the (class2idx c)) ` set codes"
      then obtain c where "c \<in> set codes" "i = the (class2idx c)" by blast
      with fwd show "i \<in> {0..<33}" by fastforce
    next
      fix i :: int assume "i \<in> {0..<33}"
      then have "0 \<le> i \<and> i < 33" by simp
      with bwd obtain c where "c \<in> set codes" "class2idx c = Some i" by blast
      then show "i \<in> (\<lambda>c. the (class2idx c)) ` set codes" by force
    qed
  qed
  from n fwd bwd inj dom_class2idx dom_idx2class bij show ?thesis by blast
qed

theorem class_index_bijection_witness:
  "''PINUS'' \<in> set codes \<and> class2idx ''PINUS'' = Some 18 \<and> idx2class 18 = Some ''PINUS'' \<and>
   (\<exists>c \<in> set codes. idx2class 32 = Some c \<and> class2idx c = Some 32)"
proof -
  have m: "''PINUS'' \<in> set codes" by (simp add: codes_def classes_def)
  have c: "class2idx ''PINUS'' = Some 18"
    by (simp add: class2idx_def dict_of_def codes_def classes_def enumerate_eq_zip upt_rec zip_Cons1)
  from class_index_bijection m c show ?thesis by fastforce
qed

section \<open>Properties of \<^verbatim>\<open>_verify\<close>\<close>

lemma verify_unfold:
  assumes "split self = ''train'' \<or> split self = ''test''"
  shows "verify io self fs =
     (if dirs_exist self fs then Inr fs
      else if archive self \<in> fs then extract_archive io (archive self) fs
      else if \<not> download self then Inl DatasetNotFoundError
      else and_then
             (download_url io (archive_url (split self)) (root self) (archive_name (split self))
                (if checksum self then Some (archive_md5 (split self)) else None) fs)
             (extract_archive io (archive self)))"
  using assms
  by (auto simp: verify_def dirs_exist_def archive_def expected_dirs_def archive_name_def
      archive_url_def archive_md5_def metadata_def directories_def dict_get_def and_then_def Let_def)

text \<open>
  Claim C2. \<^verbatim>\<open>_verify\<close>, which \<^verbatim>\<open>__init__\<close> calls after asserting that the split is
  \<^verbatim>\<open>'train'\<close> or \<^verbatim>\<open>'test'\<close>, decides in this order: if every expected subdirectory
  exists under the root it returns and touches nothing; otherwise, if the archive
  exists at the root, it is exactly the extraction of that archive; otherwise, with
  download disabled, it raises \<^verbatim>\<open>DatasetNotFoundError\<close>; otherwise it is the download
  from the fixed URL, given the checksum only when the checksum flag is set, followed
  by the extraction. In particular, with download disabled and nothing under the
  root it raises \<^verbatim>\<open>DatasetNotFoundError\<close>, and over a file system that an extraction
  left with the expected subdirectories it returns, download disabled or not.
\<close>

theorem verify_decision_order:
  assumes "split self = ''train'' \<or> split self = ''test''"
  shows "(dirs_exist self fs \<longrightarrow> verify io self fs = Inr fs) \<and>
         (\<not> dirs_exist self fs \<and> archive self \<in> fs \<longrightarrow>
            verify io self fs = extract_archive io (archive self) fs) \<and>
         (\<not> dirs_exist self fs \<and> archive self \<notin> fs \<and> \<not> download self \<longrightarrow>
            verify io self fs = Inl DatasetNotFoundError) \<and>
         (\<not> dirs_exist self fs \<and> archive self \<notin> fs \<and> download self \<longrightarrow>
            verify io self fs =
              and_then
                (download_url io (archive_url (split self)) (root self) (archive_name (split self))
                   (if checksum self then Some (archive_md5 (split self)) else None) fs)
                (extract_archive io (archive self))) \<and>
         ((\<forall>name. join (root self) name \<notin> fs) \<and> \<not> download self \<longrightarrow>
            verify io self fs = Inl DatasetNotFoundError) \<and>
         (\<forall>fs'. extract_archive io (archive self) fs = Inr fs' \<and> dirs_exist self fs' \<longrightarrow>
            verify io (self\<lparr>download := False\<rparr>) fs' = Inr fs')"
proof -
  have empty: "(\<forall>name. join (root self) name \<notin> fs) \<Longrightarrow> \<not> dirs_exist self fs \<and> archive self \<notin> fs"
    by (auto simp: dirs_exist_def archive_def expected_dirs_def)
  have again: "\<And>fs'. dirs_exist self fs' \<Longrightarrow> verify io (self\<lparr>download := False\<rparr>) fs' = Inr fs'"
    using assms verify_unfold [of "self\<lparr>download := False\<rparr>"] by (simp add: dirs_exist_def)
  show ?thesis
    using empty again by (simp add: verify_unfold [OF assms])
qed

theorem verify_decision_order_witness:
  "(split train_example = ''train'' \<or> split train_example = ''test'') \<and>
   verify io_example train_example {} = Inl DatasetNotFoundError \<and>
   verify io_example train_example {''data/IDTREES_competition_train_v2.zip''}
     = Inr {''data/train'', ''data/IDTREES_competition_train_v2.zip''} \<and>
   verify io_example train_example {''data/train'', ''data/IDTREES_competition_train_v2.zip''}
     = Inr {''data/train'', ''data/IDTREES_competition_train_v2.zip''} \<and>
   verify io_example (train_example\<lparr>download := True\<rparr>) {}
     = Inr {''data/train'', ''data/IDTREES_competition_train_v2.zip''}"
proof -
  have s: "split train_example = ''train'' \<or> split train_example = ''test''"
    by (simp add: train_example_def)
  have s': "split (train_example\<lparr>download := True\<rparr>) = ''train'' \<or> split (train_example\<lparr>download := True\<rparr>) = ''test''"
    by (simp add: train_example_def)
  show ?thesis
    using s verify_decision_order [OF s, of "{}" io_example]
      verify_decision_order [OF s, of "{''data/IDTREES_competition_train_v2.zip''}" io_example]
      verify_decision_order [OF s, of "{''data/train'', ''data/IDTREES_competition_train_v2.zip''}" io_example]
      verify_decision_order [OF s', of "{}" io_example]
    by (simp add: train_example_def io_example_def dirs_exist_def archive_def expected_dirs_def
        archive_name_def archive_url_def archive_md5_def join_def and_then_def insert_commute)
qed

section \<open>Properties of indexed access\<close>

subsection \<open>Steps of an access\<close>

lemma and_then_Inr:
  "and_then m f = Inr y \<longleftrightarrow> (\<exists>x. m = Inr x \<and> f x = Inr y)"
  by (cases m) (simp_all add: and_then_def)

lemma and_then_Inr_simp [simp]: "and_then (Inr x) f = f x"
  by (simp add: and_then_def)

lemma and_then_Inl_simp [simp]: "and_then (Inl e) f = Inl e"
  by (simp add: and_then_def)

lemma comprehension_Inr:
  "comprehension f xs = Inr ys \<longleftrightarrow> list_all2 (\<lambda>x y. f x = Inr y) xs ys"
proof (induction xs arbitrary: ys)
  case Nil
  show ?case by auto
next
  case (Cons x xs)
  show ?case
    by (cases ys) (auto simp: and_then_Inr Cons.IH)
qed

lemma comprehension_Inl:
  assumes "\<And>x e. f x = Inl e \<Longrightarrow> e = E" and "\<exists>x \<in> set xs. f x = Inl E"
  shows "comprehension f xs = Inl E"
  using assms(2)
proof (induction xs)
  case Nil
  then show ?case by simp
next
  case (Cons x xs)
  show ?case
  proof (cases "f x")
    case (Inl e)
    with assms(1) show ?thesis by simp
  next
    case (Inr y)
    with Cons.prems have "\<exists>x \<in> set xs. f x = Inl E" by auto
    with Cons.IH Inr show ?thesis by simp
  qed
qed

lemma getitem_no_transform:
  "transforms self = None \<Longrightarrow> getitem self env i = sample_at self env i"
  by (cases "sample_at self env i") (simp_all add: getitem_def)

lemma load_image_shape:
  "load_image env path = Inr img \<Longrightarrow>
   height_width (img\<lparr>dtype := UInt8\<rparr>) = Inr (of_nat (fst image_size), of_nat (snd image_size))"
  by (auto simp: load_image_def height_width_def split: option.splits)

text \<open>The filter as \<^verbatim>\<open>__getitem__\<close> calls it: with the size of the image and the minimum side 1.\<close>

lemma filter_boxes_image_N4:
  assumes "parallel_labels bs lbls"
  shows "filter_boxes (of_nat (fst image_size), of_nat (snd image_size)) 1 (TensorN4 bs) lbls =
         Inr (TensorN4 (map (clip_box (int (fst image_size), int (snd image_size)))
                 (filter (\<lambda>b. \<not> too_small (int (fst image_size), int (snd image_size)) 1 b) bs)),
              map_option (\<lambda>ls. map snd
                 (filter (\<lambda>(b, l). \<not> too_small (int (fst image_size), int (snd image_size)) 1 b)
                    (zip bs ls))) lbls)"
  using filter_boxes_N4 [OF assms, of "(of_nat (fst image_size), of_nat (snd image_size))" 1]
  by (simp add: image_size_def)

text \<open>The steps of a successful access to a scene with annotations of the train kind.\<close>

lemma sample_at_train:
  assumes "split self \<noteq> ''test''" and "sample_at self env i = Inr s"
  shows "\<exists>path img hsi chm las boxes label boxes' label'.
           list_get (images self) i = Inr path \<and>
           load_image env path = Inr img \<and>
           load_image env (replace ''RGB'' ''HSI'' path) = Inr hsi \<and>
           load_image env (replace ''RGB'' ''CHM'' path) = Inr chm \<and>
           load_las env (replace ''.tif'' ''.las'' (replace ''RGB'' ''LAS'' path)) = Inr las \<and>
           load_boxes self env path = Inr boxes \<and>
           load_target self path = Inr label \<and>
           filter_boxes (of_nat (fst image_size), of_nat (snd image_size)) 1 boxes (Some label)
             = Inr (boxes', label') \<and>
           s = [''image'' \<mapsto> Image (img\<lparr>dtype := UInt8\<rparr>), ''hsi'' \<mapsto> Image hsi,
                ''chm'' \<mapsto> Image chm, ''las'' \<mapsto> Points las]
               (''boxes'' \<mapsto> Boxes boxes', ''label'' \<mapsto> label_value label')"
proof -
  from assms(2) obtain path where p: "list_get (images self) i = Inr path"
    by (auto simp: sample_at_def and_then_Inr)
  from assms(2) p obtain img where im: "load_image env path = Inr img"
    by (auto simp: sample_at_def and_then_Inr)
  note hw = load_image_shape [OF im]
  from assms p im hw show ?thesis
    by (auto simp: sample_at_def and_then_Inr Let_def)
qed

lemma sample_at_test_task2:
  assumes "split self = ''test''" and "task self = ''task2''" and "sample_at self env i = Inr s"
  shows "\<exists>path img hsi chm las boxes boxes' none.
           list_get (images self) i = Inr path \<and>
           load_image env path = Inr img \<and>
           load_image env (replace ''RGB'' ''HSI'' path) = Inr hsi \<and>
           load_image env (replace ''RGB'' ''CHM'' path) = Inr chm \<and>
           load_las env (replace ''.tif'' ''.las'' (replace ''RGB'' ''LAS'' path)) = Inr las \<and>
           load_boxes self env path = Inr boxes \<and>
           filter_boxes (of_nat (fst image_size), of_nat (snd image_size)) 1 boxes None
             = Inr (boxes', none) \<and>
           s = [''image'' \<mapsto> Image (img\<lparr>dtype := UInt8\<rparr>), ''hsi'' \<mapsto> Image hsi,
                ''chm'' \<mapsto> Image chm, ''las'' \<mapsto> Points las]
               (''boxes'' \<mapsto> Boxes boxes')"
proof -
  from assms(3) obtain path where p: "list_get (images self) i = Inr path"
    by (auto simp: sample_at_def and_then_Inr)
  from assms(3) p obtain img where im: "load_image env path = Inr img"
    by (auto simp: sample_at_def and_then_Inr)
  note hw = load_image_shape [OF im]
  from assms p im hw show ?thesis
    by (auto simp: sample_at_def and_then_Inr Let_def)
qed

lemma sample_at_test_task1:
  assumes "split self = ''test''" and "task self \<noteq> ''task2''" and "sample_at self env i = Inr s"
  shows "\<exists>img hsi chm las.
           s = [''image'' \<mapsto> Image (img\<lparr>dtype := UInt8\<rparr>), ''hsi'' \<mapsto> Image hsi,
                ''chm'' \<mapsto> Image chm, ''las'' \<mapsto> Points las]"
  using assms by (auto simp: sample_at_def and_then_Inr Let_def)

lemma dom_sample_train:
  "dom [''image'' \<mapsto> a, ''hsi'' \<mapsto> b, ''chm'' \<mapsto> c, ''las'' \<mapsto> d, ''boxes'' \<mapsto> e, ''label'' \<mapsto> f]
   = base_keys \<union> {''boxes'', ''label''}"
  by (auto simp: base_keys_def split: if_splits)

lemma dom_sample_task2:
  "dom [''image'' \<mapsto> a, ''hsi'' \<mapsto> b, ''chm'' \<mapsto> c, ''las'' \<mapsto> d, ''boxes'' \<mapsto> e]
   = base_keys \<union> {''boxes''}"
  by (auto simp: base_keys_def split: if_splits)

lemma dom_sample_task1:
  "dom [''image'' \<mapsto> a, ''hsi'' \<mapsto> b, ''chm'' \<mapsto> c, ''las'' \<mapsto> d] = base_keys"
  by (auto simp: base_keys_def split: if_splits)

lemma load_boxes_train:
  assumes "split self = ''train''" and "load_boxes self env path = Inr boxes"
  shows "\<exists>table bxs. labels self = Some table \<and>
           list_all2 (\<lambda>r b. derived_box self env path r = Inr b)
             (matching_rows table (basename path)) bxs \<and>
           boxes = torch_tensor bxs"
proof -
  from assms obtain table where t: "labels self = Some table"
    by (auto simp: load_boxes_def Let_def split: option.splits)
  let ?rows = "matching_rows table (basename path)"
  from assms t obtain geoms f bxs where
    g: "comprehension (geom_of (geometries self)) (map idcol ?rows) = Inr geoms" and
    f: "raster_files env path = Some f" and
    b: "comprehension (pixel_box (index f)) geoms = Inr bxs" and
    r: "boxes = torch_tensor bxs"
    by (auto simp: load_boxes_def Let_def and_then_Inr split: option.splits)
  from g have g2: "list_all2 (\<lambda>r geom. geom_of (geometries self) (idcol r) = Inr geom) ?rows geoms"
    by (simp add: comprehension_Inr list_all2_map1)
  from b have b2: "list_all2 (\<lambda>geom b. pixel_box (index f) geom = Inr b) geoms bxs"
    by (simp add: comprehension_Inr)
  have "list_all2 (\<lambda>r b. derived_box self env path r = Inr b) ?rows bxs"
    using g2 b2
  proof (rule list_all2_trans [rotated])
    fix r :: row and geom b
    assume "geom_of (geometries self) (idcol r) = Inr geom" "pixel_box (index f) geom = Inr b"
    then show "derived_box self env path r = Inr b"
      by (simp add: derived_box_def f)
  qed
  with t r show ?thesis by blast
qed

lemma load_target_train:
  assumes "load_target self path = Inr label"
  shows "\<exists>table. labels self = Some table \<and>
           list_all2 (\<lambda>r l. class_index (taxonID r) = Inr l)
             (matching_rows table (basename path)) label"
  using assms
  by (auto simp: load_target_def Let_def comprehension_Inr list_all2_map1 split: option.splits)

lemma length_filter_related:
  assumes "list_all2 R xs ys" and "\<And>x y. R x y \<Longrightarrow> Q x = P y"
  shows "length (filter Q xs) = length (filter P ys)"
  using assms(1)
  by (induction rule: list_all2_induct) (auto simp: assms(2))

lemma class_index_range: "class_index c = Inr l \<Longrightarrow> 0 \<le> l \<and> l < 33"
  by (auto simp: class_index_def split: option.splits dest: class2idx_range)

lemma class_index_unknown: "c \<notin> Some ` set codes \<Longrightarrow> class_index c = Inl KeyError"
proof (cases c)
  case None
  then show ?thesis by (simp add: class_index_def)
next
  case (Some code)
  assume "c \<notin> Some ` set codes"
  with Some have "code \<notin> dom class2idx" by (auto simp: dom_class2idx)
  with Some show ?thesis by (auto simp: class_index_def split: option.splits)
qed

lemma class_index_error: "class_index c = Inl e \<Longrightarrow> e = KeyError"
  by (auto simp: class_index_def split: option.splits)

text \<open>A successful access to a train scene, with what the filter did.\<close>

lemma train_access:
  assumes "split self = ''train''" and "sample_at self env i = Inr s"
  shows "\<exists>path table bxs label.
           list_get (images self) i = Inr path \<and> labels self = Some table \<and>
           list_all2 (\<lambda>r b. derived_box self env path r = Inr b)
             (matching_rows table (basename path)) bxs \<and>
           list_all2 (\<lambda>r l. class_index (taxonID r) = Inr l)
             (matching_rows table (basename path)) label \<and>
           s ''boxes'' = Some (Boxes (TensorN4 (map (clip_box (int (fst image_size), int (snd image_size)))
               (filter (\<lambda>b. \<not> too_small (int (fst image_size), int (snd image_size)) 1 b) bxs)))) \<and>
           s ''label'' = Some (Labels (map snd
               (filter (\<lambda>(b, l). \<not> too_small (int (fst image_size), int (snd image_size)) 1 b)
                  (zip bxs label))))"
proof -
  let ?sz = "(int (fst image_size), int (snd image_size))"
  let ?wz = "(of_nat (fst image_size), of_nat (snd image_size)) :: int64 \<times> int64"
  from assms(1) have nt: "split self \<noteq> ''test''" by simp
  from sample_at_train [OF nt assms(2)] obtain path boxes label boxes' label' m where
    p: "list_get (images self) i = Inr path" and
    lb: "load_boxes self env path = Inr boxes" and
    lt: "load_target self path = Inr label" and
    fb: "filter_boxes ?wz 1 boxes (Some label) = Inr (boxes', label')" and
    s: "s = m(''boxes'' \<mapsto> Boxes boxes', ''label'' \<mapsto> label_value label')"
    by blast
  from load_boxes_train [OF assms(1) lb] obtain table bxs where
    t: "labels self = Some table" and
    rb: "list_all2 (\<lambda>r b. derived_box self env path r = Inr b)
           (matching_rows table (basename path)) bxs" and
    bt: "boxes = torch_tensor bxs"
    by blast
  from load_target_train [OF lt] t have
    rl: "list_all2 (\<lambda>r l. class_index (taxonID r) = Inr l)
           (matching_rows table (basename path)) label"
    by simp
  have ne: "bxs \<noteq> []"
  proof
    assume "bxs = []"
    with bt have "boxes = Tensor0" by (simp add: torch_tensor_def)
    with fb show False by (simp add: filter_boxes_Tensor0)
  qed
  with bt have b4: "boxes = TensorN4 bxs" by (simp add: torch_tensor_def)
  have "length label = length bxs"
    using list_all2_lengthD [OF rb] list_all2_lengthD [OF rl] by simp
  then have "parallel_labels bxs (Some label)" by (simp add: parallel_labels_def)
  from filter_boxes_image_N4 [OF this] fb b4 have
    "boxes' = TensorN4 (map (clip_box ?sz) (filter (\<lambda>b. \<not> too_small ?sz 1 b) bxs))"
    "label' = Some (map snd (filter (\<lambda>(b, l). \<not> too_small ?sz 1 b) (zip bxs label)))"
    by simp_all
  with s have "s ''boxes'' = Some (Boxes (TensorN4 (map (clip_box ?sz) (filter (\<lambda>b. \<not> too_small ?sz 1 b) bxs))))"
    "s ''label'' = Some (Labels (map snd (filter (\<lambda>(b, l). \<not> too_small ?sz 1 b) (zip bxs label))))"
    by (simp_all add: label_value_def)
  with p t rb rl show ?thesis by blast
qed

lemma comprehension_all_Inr:
  assumes "\<forall>x \<in> set xs. \<exists>y. f x = Inr y"
  shows "\<exists>ys. comprehension f xs = Inr ys"
  using assms
proof (induction xs)
  case Nil
  show ?case by simp
next
  case (Cons x xs)
  then obtain y ys where "f x = Inr y" "comprehension f xs = Inr ys" by auto
  then show ?case by simp
qed

text \<open>
  An access to a train scene with at least one matching row, whose files load and
  whose rows have a geometry and a known species code, returns a sample.
\<close>

lemma train_access_succeeds:
  assumes tr: "split self = ''train''"
    and p: "list_get (images self) i = Inr path"
    and ml: "modalities_load env path"
    and t: "labels self = Some table"
    and ne: "matching_rows table (basename path) \<noteq> []"
    and ok: "\<forall>r \<in> set (matching_rows table (basename path)).
               (\<exists>b. derived_box self env path r = Inr b) \<and> (\<exists>l. class_index (taxonID r) = Inr l)"
  shows "\<exists>s. sample_at self env i = Inr s"
proof -
  let ?rows = "matching_rows table (basename path)"
  let ?sz = "(int (fst image_size), int (snd image_size))"
  let ?wz = "(of_nat (fst image_size), of_nat (snd image_size)) :: int64 \<times> int64"
  from ml obtain img hsi chm las where
    l: "load_image env path = Inr img"
       "load_image env (replace ''RGB'' ''HSI'' path) = Inr hsi"
       "load_image env (replace ''RGB'' ''CHM'' path) = Inr chm"
       "load_las env (replace ''.tif'' ''.las'' (replace ''RGB'' ''LAS'' path)) = Inr las"
    by (auto simp: modalities_load_def split: sum.splits)
  from l(1) obtain f where f: "raster_files env path = Some f"
    by (auto simp: load_image_def split: option.splits)
  have "\<forall>k \<in> set (map idcol ?rows). \<exists>g. geom_of (geometries self) k = Inr g"
    using ok by (auto simp: derived_box_def and_then_Inr)
  from comprehension_all_Inr [OF this] obtain geoms where
    g: "comprehension (geom_of (geometries self)) (map idcol ?rows) = Inr geoms" ..
  then have g2: "list_all2 (\<lambda>r geom. geom_of (geometries self) (idcol r) = Inr geom) ?rows geoms"
    by (simp add: comprehension_Inr list_all2_map1)
  have "\<forall>geom \<in> set geoms. \<exists>b. pixel_box (index f) geom = Inr b"
  proof
    fix geom assume "geom \<in> set geoms"
    then obtain n where n: "n < length geoms" "geoms ! n = geom"
      by (auto simp: in_set_conv_nth)
    with g2 have r: "?rows ! n \<in> set ?rows"
      "geom_of (geometries self) (idcol (?rows ! n)) = Inr geom"
      by (auto simp: list_all2_conv_all_nth)
    with ok obtain b where "derived_box self env path (?rows ! n) = Inr b" by blast
    with r(2) have "pixel_box (index f) geom = Inr b"
      by (simp add: derived_box_def f)
    then show "\<exists>b. pixel_box (index f) geom = Inr b" ..
  qed
  from comprehension_all_Inr [OF this] obtain bxs where
    b: "comprehension (pixel_box (index f)) geoms = Inr bxs" ..
  have len: "length bxs = length ?rows"
  proof -
    from b have "list_all2 (\<lambda>geom b. pixel_box (index f) geom = Inr b) geoms bxs"
      by (simp add: comprehension_Inr)
    from list_all2_lengthD [OF this] list_all2_lengthD [OF g2] show ?thesis by simp
  qed
  with ne have bne: "bxs \<noteq> []" by auto
  have lb: "load_boxes self env path = Inr (TensorN4 bxs)"
    using tr t g f b bne by (simp add: load_boxes_def torch_tensor_def)
  have "\<forall>c \<in> set (map taxonID ?rows). \<exists>l. class_index c = Inr l"
    using ok by auto
  from comprehension_all_Inr [OF this] obtain label where
    c: "comprehension class_index (map taxonID ?rows) = Inr label" ..
  then have lt: "load_target self path = Inr label"
    using t by (simp add: load_target_def)
  from c have "list_all2 (\<lambda>c l. class_index c = Inr l) (map taxonID ?rows) label"
    by (simp add: comprehension_Inr)
  from list_all2_lengthD [OF this] have "length label = length ?rows" by simp
  with len have "parallel_labels bxs (Some label)" by (simp add: parallel_labels_def)
  from filter_boxes_image_N4 [OF this] obtain out where
    fb: "filter_boxes ?wz 1 (TensorN4 bxs) (Some label) = Inr out" by blast
  from tr have nt: "split self \<noteq> ''test''" by simp
  obtain b' l' where out: "out = (b', l')" by (cases out)
  show ?thesis
    unfolding sample_at_def
    using p l nt lb lt fb load_image_shape [OF l(1)] out
    by (simp add: Let_def)
qed

lemma returned_box_count:
  assumes "split self = ''train''" and "transforms self = None"
    and "getitem self env i = Inr s"
  shows "\<exists>path table bs ls.
           list_get (images self) i = Inr path \<and> labels self = Some table \<and>
           s ''boxes'' = Some (Boxes bs) \<and> s ''label'' = Some (Labels ls) \<and>
           len_boxes bs = length (filter (survives self env path) (matching_rows table (basename path))) \<and>
           length ls = len_boxes bs"
proof -
  let ?sz = "(int (fst image_size), int (snd image_size))"
  let ?wz = "(of_nat (fst image_size), of_nat (snd image_size)) :: int64 \<times> int64"
  let ?keep = "\<lambda>b. \<not> too_small ?sz 1 b"
  from assms have "sample_at self env i = Inr s" by (simp add: getitem_no_transform)
  from train_access [OF assms(1) this] obtain path table bxs label where
    p: "list_get (images self) i = Inr path" and t: "labels self = Some table" and
    rb: "list_all2 (\<lambda>r b. derived_box self env path r = Inr b)
           (matching_rows table (basename path)) bxs" and
    rl: "list_all2 (\<lambda>r l. class_index (taxonID r) = Inr l)
           (matching_rows table (basename path)) label" and
    sb: "s ''boxes'' = Some (Boxes (TensorN4 (map (clip_box ?sz) (filter ?keep bxs))))" and
    sl: "s ''label'' = Some (Labels (map snd (filter (\<lambda>(b, l). ?keep b) (zip bxs label))))"
    by blast
  have n: "length (filter (survives self env path) (matching_rows table (basename path)))
           = length (filter ?keep bxs)"
    using rb by (rule length_filter_related) (simp add: survives_def)
  have "length label = length bxs"
    using list_all2_lengthD [OF rb] list_all2_lengthD [OF rl] by simp
  then have l: "length (map snd (filter (\<lambda>(b, l). ?keep b) (zip bxs label))) = length (filter ?keep bxs)"
    by (simp add: length_filter_zip)
  from p t sb sl n l show ?thesis
    by (intro exI [of _ path] exI [of _ table] exI [of _ "TensorN4 (map (clip_box ?sz) (filter ?keep bxs))"]
        exI [of _ "map snd (filter (\<lambda>(b, l). ?keep b) (zip bxs label))"]) simp
qed

lemma modalities_loadD:
  assumes "modalities_load env path"
  shows "\<exists>img hsi chm las f.
           load_image env path = Inr img \<and>
           load_image env (replace ''RGB'' ''HSI'' path) = Inr hsi \<and>
           load_image env (replace ''RGB'' ''CHM'' path) = Inr chm \<and>
           load_las env (replace ''.tif'' ''.las'' (replace ''RGB'' ''LAS'' path)) = Inr las \<and>
           raster_files env path = Some f"
  using assms
  by (auto simp: modalities_load_def load_image_def split: sum.splits option.splits)

text \<open>
  A scene with no matching row, or with no matching geometry in the second test
  task, whose files load: \<^verbatim>\<open>_load_boxes\<close> returns the tensor of shape \<^verbatim>\<open>[0]\<close> and the
  filter raises.
\<close>

lemma empty_train_scene:
  assumes "split self = ''train''" and "list_get (images self) i = Inr path"
    and "modalities_load env path" and "labels self = Some table"
    and "matching_rows table (basename path) = []"
  shows "load_boxes self env path = Inr Tensor0 \<and> load_target self path = Inr [] \<and>
         sample_at self env i = Inl IndexError"
proof -
  from modalities_loadD [OF assms(3)] obtain img hsi chm las f where
    l: "load_image env path = Inr img"
       "load_image env (replace ''RGB'' ''HSI'' path) = Inr hsi"
       "load_image env (replace ''RGB'' ''CHM'' path) = Inr chm"
       "load_las env (replace ''.tif'' ''.las'' (replace ''RGB'' ''LAS'' path)) = Inr las"
    and f: "raster_files env path = Some f"
    by blast
  have lb: "load_boxes self env path = Inr Tensor0"
    using assms f by (simp add: load_boxes_def torch_tensor_def)
  have lt: "load_target self path = Inr []"
    using assms by (simp add: load_target_def)
  from assms(1) have nt: "split self \<noteq> ''test''" by simp
  have "sample_at self env i = Inl IndexError"
    unfolding sample_at_def
    using assms(2) l nt lb lt load_image_shape [OF l(1)]
    by (simp add: Let_def filter_boxes_Tensor0)
  with lb lt show ?thesis by simp
qed

lemma empty_task2_scene:
  assumes "split self = ''test''" and "task self = ''task2''"
    and "list_get (images self) i = Inr path" and "modalities_load env path"
    and "geometries self = Some g"
    and "filter (\<lambda>(k, v). plotID v = basename path) g = []"
  shows "load_boxes self env path = Inr Tensor0 \<and> sample_at self env i = Inl IndexError"
proof -
  from modalities_loadD [OF assms(4)] obtain img hsi chm las f where
    l: "load_image env path = Inr img"
       "load_image env (replace ''RGB'' ''HSI'' path) = Inr hsi"
       "load_image env (replace ''RGB'' ''CHM'' path) = Inr chm"
       "load_las env (replace ''.tif'' ''.las'' (replace ''RGB'' ''LAS'' path)) = Inr las"
    and f: "raster_files env path = Some f"
    by blast
  have lb: "load_boxes self env path = Inr Tensor0"
    using assms f by (simp add: load_boxes_def torch_tensor_def)
  have "sample_at self env i = Inl IndexError"
    unfolding sample_at_def
    using assms(1,2,3) l lb load_image_shape [OF l(1)]
    by (simp add: Let_def filter_boxes_Tensor0)
  with lb show ?thesis by simp
qed

text \<open>Which exception surfaces when the labels of a train scene cannot be looked up.\<close>

lemma comprehension_cases:
  "(\<exists>ys. comprehension f xs = Inr ys) \<or>
   (\<exists>x \<in> set xs. \<exists>e. f x = Inl e \<and> comprehension f xs = Inl e)"
proof (induction xs)
  case Nil
  show ?case by simp
next
  case (Cons x xs)
  show ?case
  proof (cases "f x")
    case (Inl e)
    then show ?thesis by simp
  next
    case (Inr y)
    from Cons.IH show ?thesis
    proof
      assume "\<exists>ys. comprehension f xs = Inr ys"
      with Inr show ?thesis by auto
    next
      assume "\<exists>x \<in> set xs. \<exists>e. f x = Inl e \<and> comprehension f xs = Inl e"
      with Inr show ?thesis by auto
    qed
  qed
qed

lemma geom_of_error: "geom_of (Some g) i = Inl e \<Longrightarrow> lookup_error e"
  by (auto simp: geom_of_def dict_get_def and_then_def lookup_error_def
      split: option.splits list.splits)

lemma geom_of_nonempty:
  assumes "rings_nonempty g" and "geom_of (Some g) i = Inr geom"
  shows "geom \<noteq> []"
proof -
  from assms(2) obtain k v ring rest where
    v: "map_of g k = Some v" and c: "coordinates v = ring # rest" and t: "geom = take 4 ring"
    by (auto simp: geom_of_def dict_get_def and_then_def split: option.splits list.splits)
  from v have "(k, v) \<in> set g" by (rule map_of_SomeD)
  with assms(1) c have "ring \<noteq> []" by (auto simp: rings_nonempty_def)
  with t show ?thesis by simp
qed

lemma minimum_nonempty: "xs \<noteq> [] \<Longrightarrow> \<exists>m. minimum xs = Inr m"
  by (cases xs) simp_all

lemma maximum_nonempty: "xs \<noteq> [] \<Longrightarrow> \<exists>m. maximum xs = Inr m"
  by (cases xs) simp_all

lemma pixel_box_nonempty:
  assumes "geom \<noteq> []"
  shows "\<exists>b. pixel_box f_index geom = Inr b"
proof -
  let ?coords = "map (\<lambda>(x, y). f_index x y) geom"
  from assms have n: "map snd ?coords \<noteq> []" "map fst ?coords \<noteq> []" by simp_all
  from minimum_nonempty [OF n(1)] maximum_nonempty [OF n(1)]
    minimum_nonempty [OF n(2)] maximum_nonempty [OF n(2)]
  obtain xmin xmax ymin ymax where
    "minimum (map snd ?coords) = Inr xmin" "maximum (map snd ?coords) = Inr xmax"
    "minimum (map fst ?coords) = Inr ymin" "maximum (map fst ?coords) = Inr ymax"
    by blast
  then have "pixel_box f_index geom = Inr (xmin, ymin, xmax, ymax)"
    by (simp add: pixel_box_def Let_def)
  then show ?thesis ..
qed

lemma load_boxes_train_cases:
  assumes "split self = ''train''" and "labels self = Some table"
    and "geometries self = Some g" and "rings_nonempty g"
    and "raster_files env path = Some f"
  shows "(\<exists>boxes. load_boxes self env path = Inr boxes) \<or>
         (\<exists>e. load_boxes self env path = Inl e \<and> lookup_error e)"
proof -
  let ?ids = "map idcol (matching_rows table (basename path))"
  from comprehension_cases [of "geom_of (Some g)" ?ids] show ?thesis
  proof
    assume "\<exists>geoms. comprehension (geom_of (Some g)) ?ids = Inr geoms"
    then obtain geoms where gs: "comprehension (geom_of (Some g)) ?ids = Inr geoms" ..
    have "\<forall>geom \<in> set geoms. \<exists>b. pixel_box (index f) geom = Inr b"
    proof
      fix geom assume "geom \<in> set geoms"
      then obtain n where n: "n < length geoms" "geoms ! n = geom"
        by (auto simp: in_set_conv_nth)
      from gs have "list_all2 (\<lambda>i geom. geom_of (Some g) i = Inr geom) ?ids geoms"
        by (simp add: comprehension_Inr)
      with n have "geom_of (Some g) (?ids ! n) = Inr geom"
        by (auto simp: list_all2_conv_all_nth)
      from geom_of_nonempty [OF assms(4) this] show "\<exists>b. pixel_box (index f) geom = Inr b"
        by (rule pixel_box_nonempty)
    qed
    from comprehension_all_Inr [OF this] obtain bxs where
      "comprehension (pixel_box (index f)) geoms = Inr bxs" ..
    with gs assms have "load_boxes self env path = Inr (torch_tensor bxs)"
      by (simp add: load_boxes_def)
    then show ?thesis by blast
  next
    assume "\<exists>i \<in> set ?ids. \<exists>e. geom_of (Some g) i = Inl e \<and>
              comprehension (geom_of (Some g)) ?ids = Inl e"
    then obtain i e where "geom_of (Some g) i = Inl e"
      and c: "comprehension (geom_of (Some g)) ?ids = Inl e" by blast
    then have "lookup_error e" by (simp only: geom_of_error)
    moreover from c assms have "load_boxes self env path = Inl e"
      by (simp add: load_boxes_def)
    ultimately show ?thesis by blast
  qed
qed

lemma sample_at_boxes_error:
  assumes "split self = ''train''" and "list_get (images self) i = Inr path"
    and "modalities_load env path" and "load_boxes self env path = Inl e"
  shows "sample_at self env i = Inl e"
proof -
  from modalities_loadD [OF assms(3)] obtain img hsi chm las where
    l: "load_image env path = Inr img"
       "load_image env (replace ''RGB'' ''HSI'' path) = Inr hsi"
       "load_image env (replace ''RGB'' ''CHM'' path) = Inr chm"
       "load_las env (replace ''.tif'' ''.las'' (replace ''RGB'' ''LAS'' path)) = Inr las"
    by blast
  from assms(1) have nt: "split self \<noteq> ''test''" by simp
  show ?thesis
    unfolding sample_at_def using assms(2,4) l nt by (simp add: Let_def)
qed

lemma sample_at_target_error:
  assumes "split self = ''train''" and "list_get (images self) i = Inr path"
    and "modalities_load env path" and "load_boxes self env path = Inr boxes"
    and "load_target self path = Inl e"
  shows "sample_at self env i = Inl e"
proof -
  from modalities_loadD [OF assms(3)] obtain img hsi chm las where
    l: "load_image env path = Inr img"
       "load_image env (replace ''RGB'' ''HSI'' path) = Inr hsi"
       "load_image env (replace ''RGB'' ''CHM'' path) = Inr chm"
       "load_las env (replace ''.tif'' ''.las'' (replace ''RGB'' ''LAS'' path)) = Inr las"
    by blast
  from assms(1) have nt: "split self \<noteq> ''test''" by simp
  show ?thesis
    unfolding sample_at_def using assms(2,4,5) l nt by (simp add: Let_def)
qed

lemma unknown_taxon_lookup_error:
  assumes "split self = ''train''" and "list_get (images self) i = Inr path"
    and "modalities_load env path" and "labels self = Some table"
    and "geometries self = Some g" and "rings_nonempty g"
    and "load_target self path = Inl KeyError"
  shows "\<exists>e. sample_at self env i = Inl e \<and> lookup_error e"
proof -
  from modalities_loadD [OF assms(3)] obtain f where f: "raster_files env path = Some f"
    by blast
  from load_boxes_train_cases [OF assms(1) assms(4) assms(5) assms(6) f] show ?thesis
  proof
    assume "\<exists>boxes. load_boxes self env path = Inr boxes"
    then obtain boxes where "load_boxes self env path = Inr boxes" ..
    from sample_at_target_error [OF assms(1) assms(2) assms(3) this assms(7)]
    show ?thesis by (auto simp: lookup_error_def)
  next
    assume "\<exists>e. load_boxes self env path = Inl e \<and> lookup_error e"
    then obtain e where e: "load_boxes self env path = Inl e" "lookup_error e" by blast
    from sample_at_boxes_error [OF assms(1) assms(2) assms(3) e(1)] e(2)
    show ?thesis by blast
  qed
qed

subsection \<open>The example scenes, evaluated\<close>

lemma codes_ACRU_TSCA: "class2idx ''ACRU'' = Some 1 \<and> class2idx ''TSCA'' = Some 32"
  using class2idx_nth [of 1] class2idx_nth [of 32] by (simp add: codes_def classes_def)

lemma example_paths:
  "replace ''RGB'' ''HSI'' ''RGB/a.tif'' = ''HSI/a.tif''"
  "replace ''RGB'' ''CHM'' ''RGB/a.tif'' = ''CHM/a.tif''"
  "replace ''.tif'' ''.las'' (replace ''RGB'' ''LAS'' ''RGB/a.tif'') = ''LAS/a.las''"
  "replace ''RGB'' ''HSI'' ''RGB/b.tif'' = ''HSI/b.tif''"
  "replace ''RGB'' ''CHM'' ''RGB/b.tif'' = ''CHM/b.tif''"
  "replace ''.tif'' ''.las'' (replace ''RGB'' ''LAS'' ''RGB/b.tif'') = ''LAS/b.las''"
  "basename ''RGB/a.tif'' = ''a.tif''"
  "basename ''RGB/b.tif'' = ''b.tif''"
  by (simp_all add: basename_def)

lemma example_modalities:
  "modalities_load env_example ''RGB/a.tif''"
  "modalities_load env_example ''RGB/b.tif''"
  by (simp_all add: modalities_load_def example_paths load_image_def load_las_def env_example_def)

lemma example_boxes_a:
  "load_boxes scene_example env_example ''RGB/a.tif''
   = Inr (TensorN4 [(10, 20, 30, 50), (190, 20, 250, 20)])"
  by (simp add: load_boxes_def example_paths scene_example_def env_example_def raster_example_def
      matching_rows_def geom_of_def dict_get_def pixel_box_def torch_tensor_def)

lemma example_boxes_b:
  "load_boxes scene_example env_example ''RGB/b.tif'' = Inr Tensor0"
  by (simp add: load_boxes_def example_paths scene_example_def env_example_def raster_example_def
      matching_rows_def geom_of_def dict_get_def pixel_box_def torch_tensor_def)

lemma example_target_a: "load_target scene_example ''RGB/a.tif'' = Inr [1, 32]"
  by (simp add: load_target_def example_paths scene_example_def matching_rows_def
      class_index_def codes_ACRU_TSCA)

lemma example_target_b: "load_target scene_example ''RGB/b.tif'' = Inr []"
  by (simp add: load_target_def example_paths scene_example_def matching_rows_def)

lemma example_filter_a:
  "filter_boxes (200, 200) 1 (TensorN4 [(10, 20, 30, 50), (190, 20, 250, 20)]) (Some [1, 32])
   = Inr (TensorN4 [(10, 20, 30, 50)], Some [1])"
  by (simp add: filter_boxes_def clamp_def index_select_def)

lemma example_sample_a:
  "sample_at scene_example env_example 0 =
     Inr [''image'' \<mapsto> Image \<lparr>shape = [3, 200, 200], dtype = UInt8\<rparr>,
          ''hsi'' \<mapsto> Image \<lparr>shape = [369, 200, 200], dtype = Native\<rparr>,
          ''chm'' \<mapsto> Image \<lparr>shape = [1, 200, 200], dtype = Native\<rparr>,
          ''las'' \<mapsto> Points [(1, 2, 3)],
          ''boxes'' \<mapsto> Boxes (TensorN4 [(10, 20, 30, 50)]),
          ''label'' \<mapsto> Labels [1]]"
proof -
  have p: "list_get (images scene_example) 0 = Inr ''RGB/a.tif''"
    by (simp add: list_get_def scene_example_def)
  have l: "load_image env_example ''RGB/a.tif'' = Inr \<lparr>shape = [3, 200, 200], dtype = Native\<rparr>"
    "load_image env_example ''HSI/a.tif'' = Inr \<lparr>shape = [369, 200, 200], dtype = Native\<rparr>"
    "load_image env_example ''CHM/a.tif'' = Inr \<lparr>shape = [1, 200, 200], dtype = Native\<rparr>"
    "load_las env_example ''LAS/a.las'' = Inr [(1, 2, 3)]"
    by (simp_all add: load_image_def load_las_def env_example_def raster_example_def image_size_def)
  have s: "split scene_example = ''train''" by (simp add: scene_example_def)
  show ?thesis
    unfolding sample_at_def p
    by (simp add: l s example_paths example_boxes_a example_target_a example_filter_a
        height_width_def label_value_def)
qed

lemma example_sample_b: "sample_at scene_example env_example 1 = Inl IndexError"
proof -
  have p: "list_get (images scene_example) 1 = Inr ''RGB/b.tif''"
    by (simp add: list_get_def scene_example_def)
  have l: "load_image env_example ''RGB/b.tif'' = Inr \<lparr>shape = [3, 200, 200], dtype = Native\<rparr>"
    "load_image env_example ''HSI/b.tif'' = Inr \<lparr>shape = [369, 200, 200], dtype = Native\<rparr>"
    "load_image env_example ''CHM/b.tif'' = Inr \<lparr>shape = [1, 200, 200], dtype = Native\<rparr>"
    "load_las env_example ''LAS/b.las'' = Inr []"
    by (simp_all add: load_image_def load_las_def env_example_def raster_example_def image_size_def)
  have s: "split scene_example = ''train''" by (simp add: scene_example_def)
  show ?thesis
    unfolding sample_at_def p
    by (simp add: l s example_paths example_boxes_b example_target_b filter_boxes_Tensor0
        height_width_def)
qed

lemma example_loads:
  "list_get [''RGB/a.tif'', ''RGB/b.tif''] 0 = Inr ''RGB/a.tif''"
  "list_get [''RGB/a.tif'', ''RGB/b.tif''] 1 = Inr ''RGB/b.tif''"
  "load_image env_example ''RGB/a.tif'' = Inr \<lparr>shape = [3, 200, 200], dtype = Native\<rparr>"
  "load_image env_example ''HSI/a.tif'' = Inr \<lparr>shape = [369, 200, 200], dtype = Native\<rparr>"
  "load_image env_example ''CHM/a.tif'' = Inr \<lparr>shape = [1, 200, 200], dtype = Native\<rparr>"
  "load_las env_example ''LAS/a.las'' = Inr [(1, 2, 3)]"
  "load_image env_example ''RGB/b.tif'' = Inr \<lparr>shape = [3, 200, 200], dtype = Native\<rparr>"
  "load_image env_example ''HSI/b.tif'' = Inr \<lparr>shape = [369, 200, 200], dtype = Native\<rparr>"
  "load_image env_example ''CHM/b.tif'' = Inr \<lparr>shape = [1, 200, 200], dtype = Native\<rparr>"
  "load_las env_example ''LAS/b.las'' = Inr []"
  by (simp_all add: list_get_def load_image_def load_las_def env_example_def raster_example_def
      image_size_def)

lemma example_task1:
  "sample_at scene_task1 env_example 0 =
     Inr [''image'' \<mapsto> Image \<lparr>shape = [3, 200, 200], dtype = UInt8\<rparr>,
          ''hsi'' \<mapsto> Image \<lparr>shape = [369, 200, 200], dtype = Native\<rparr>,
          ''chm'' \<mapsto> Image \<lparr>shape = [1, 200, 200], dtype = Native\<rparr>,
          ''las'' \<mapsto> Points [(1, 2, 3)]]"
proof -
  have c: "images scene_task1 = [''RGB/a.tif'', ''RGB/b.tif'']" "split scene_task1 = ''test''"
    "task scene_task1 = ''task1''"
    by (simp_all add: scene_task1_def scene_example_def)
  show ?thesis
    unfolding sample_at_def c by (simp add: example_loads example_paths)
qed

lemma example_boxes_task2:
  "load_boxes scene_task2 env_example ''RGB/a.tif''
   = Inr (TensorN4 [(10, 20, 30, 50), (190, 20, 250, 20)])"
  "load_boxes scene_task2 env_example ''RGB/b.tif'' = Inr Tensor0"
  by (simp_all add: load_boxes_def example_paths scene_task2_def scene_example_def
      env_example_def raster_example_def geom_of_def dict_get_def pixel_box_def torch_tensor_def)

lemma example_filter_task2:
  "filter_boxes (200, 200) 1 (TensorN4 [(10, 20, 30, 50), (190, 20, 250, 20)]) None
   = Inr (TensorN4 [(10, 20, 30, 50)], None)"
  by (simp add: filter_boxes_def clamp_def index_select_def)

lemma example_task2:
  "sample_at scene_task2 env_example 0 =
     Inr [''image'' \<mapsto> Image \<lparr>shape = [3, 200, 200], dtype = UInt8\<rparr>,
          ''hsi'' \<mapsto> Image \<lparr>shape = [369, 200, 200], dtype = Native\<rparr>,
          ''chm'' \<mapsto> Image \<lparr>shape = [1, 200, 200], dtype = Native\<rparr>,
          ''las'' \<mapsto> Points [(1, 2, 3)],
          ''boxes'' \<mapsto> Boxes (TensorN4 [(10, 20, 30, 50)])]"
proof -
  have c: "images scene_task2 = [''RGB/a.tif'', ''RGB/b.tif'']" "split scene_task2 = ''test''"
    "task scene_task2 = ''task2''"
    by (simp_all add: scene_task2_def scene_example_def)
  show ?thesis
    unfolding sample_at_def c
    by (simp add: example_loads example_paths example_boxes_task2 example_filter_task2
        height_width_def)
qed

lemma example_task2_empty: "sample_at scene_task2 env_example 1 = Inl IndexError"
proof -
  have c: "images scene_task2 = [''RGB/a.tif'', ''RGB/b.tif'']" "split scene_task2 = ''test''"
    "task scene_task2 = ''task2''"
    by (simp_all add: scene_task2_def scene_example_def)
  show ?thesis
    unfolding sample_at_def c
    by (simp add: example_loads example_paths example_boxes_task2 filter_boxes_Tensor0
        height_width_def)
qed

lemma example_unknown:
  "load_boxes scene_unknown env_example ''RGB/a.tif'' = Inr (TensorN4 [(10, 20, 30, 50)])"
  by (simp add: load_boxes_def example_paths scene_unknown_def scene_example_def
      env_example_def raster_example_def matching_rows_def geom_of_def dict_get_def
      pixel_box_def torch_tensor_def)

lemma example_unknown_code: "Some ''OAK'' \<notin> Some ` set codes"
  by (simp add: codes_def classes_def image_iff)

subsection \<open>Keys, box counts, labels and the empty scene\<close>

text \<open>
  Claim C8. The keys of the sample, before the user's transform, depend on the split
  and the task only: the four modality keys, with \<^verbatim>\<open>'boxes'\<close> and no \<^verbatim>\<open>'label'\<close> for
  split \<^verbatim>\<open>'test'\<close> and task \<^verbatim>\<open>'task2'\<close>, with neither for split \<^verbatim>\<open>'test'\<close> and
  task \<^verbatim>\<open>'task1'\<close>, and with both \<^verbatim>\<open>'boxes'\<close> and \<^verbatim>\<open>'label'\<close> for split \<^verbatim>\<open>'train'\<close>.
\<close>

theorem sample_keys:
  assumes "sample_at self env i = Inr s"
  shows "dom s = base_keys \<union>
           (if split self = ''test'' then (if task self = ''task2'' then {''boxes''} else {})
            else {''boxes'', ''label''})"
proof (cases "split self = ''test''")
  case False
  from sample_at_train [OF False assms] have "dom s = base_keys \<union> {''boxes'', ''label''}"
    by (elim exE conjE) (simp only: dom_sample_train)
  with False show ?thesis by simp
next
  case True
  show ?thesis
  proof (cases "task self = ''task2''")
    case t2: True
    from sample_at_test_task2 [OF True t2 assms] have "dom s = base_keys \<union> {''boxes''}"
      by (elim exE conjE) (simp only: dom_sample_task2)
    with True t2 show ?thesis by simp
  next
    case t1: False
    from sample_at_test_task1 [OF True t1 assms] have "dom s = base_keys"
      by (elim exE conjE) (simp only: dom_sample_task1)
    with True t1 show ?thesis by simp
  qed
qed

theorem sample_keys_witness:
  "(\<exists>s. sample_at scene_example env_example 0 = Inr s \<and>
        dom s = {''image'', ''hsi'', ''chm'', ''las'', ''boxes'', ''label''}) \<and>
   (\<exists>s. sample_at scene_task2 env_example 0 = Inr s \<and>
        dom s = {''image'', ''hsi'', ''chm'', ''las'', ''boxes''}) \<and>
   (\<exists>s. sample_at scene_task1 env_example 0 = Inr s \<and>
        dom s = {''image'', ''hsi'', ''chm'', ''las''})"
proof -
  have c: "split scene_example = ''train''" "split scene_task2 = ''test''" "task scene_task2 = ''task2''"
    "split scene_task1 = ''test''" "task scene_task1 = ''task1''"
    by (simp_all add: scene_task1_def scene_task2_def scene_example_def)
  show ?thesis
    using sample_keys [OF example_sample_a] sample_keys [OF example_task2]
      sample_keys [OF example_task1]
    unfolding c base_keys_def by (auto simp add: example_sample_a example_task2 example_task1)
qed

lemma basename_file_name: "basename p = file_name p"
proof (induction p)
  case Nil
  show ?case by (simp add: basename_def)
next
  case (Cons c cs)
  show ?case
  proof (cases "CHR ''/'' \<in> set cs")
    case True
    then have "CHR ''/'' \<in> set (rev cs)" by simp
    then have "takeWhile (\<lambda>x. x \<noteq> CHR ''/'') (rev cs @ [c]) = takeWhile (\<lambda>x. x \<noteq> CHR ''/'') (rev cs)"
      by (rule takeWhile_append1) simp
    with True Cons.IH show ?thesis by (simp add: basename_def)
  next
    case False
    then have "takeWhile (\<lambda>x. x \<noteq> CHR ''/'') (rev cs @ [c])
               = rev cs @ takeWhile (\<lambda>x. x \<noteq> CHR ''/'') [c]"
      by (intro takeWhile_append2) auto
    with False show ?thesis by (simp add: basename_def)
  qed
qed

lemma scene_rows:
  "filter (\<lambda>r. rsFile r = Some (file_name path) \<and> P r) table
   = filter P (matching_rows table (basename path))"
  by (simp add: matching_rows_def basename_file_name conj_commute)

lemma scene_rows_all:
  "filter (\<lambda>r. rsFile r = Some (file_name path)) table = matching_rows table (basename path)"
  by (simp add: matching_rows_def basename_file_name)

text \<open>
  Claim C5. In the train split, with no transform, the sample returned for a scene
  has as many boxes as the table \<^verbatim>\<open>self.labels\<close> (joined, duplicates dropped) has
  rows whose \<^verbatim>\<open>rsFile\<close> is the file name of the scene's RGB file and whose derived
  box survives the filter; its label tensor has the same length. A sample is
  returned whenever the scene's files load, at least one row has the scene's file
  name as its \<^verbatim>\<open>rsFile\<close>, and every such row has a geometry that gives a box and a
  known species code.
\<close>

theorem train_box_count:
  assumes "split self = ''train''" and "transforms self = None"
  shows "(\<forall>s. getitem self env i = Inr s \<longrightarrow>
            (\<exists>path table bs ls.
               list_get (images self) i = Inr path \<and> labels self = Some table \<and>
               s ''boxes'' = Some (Boxes bs) \<and> s ''label'' = Some (Labels ls) \<and>
               len_boxes bs = length (filter (\<lambda>r. rsFile r = Some (file_name path) \<and>
                                                  survives self env path r) table) \<and>
               length ls = len_boxes bs)) \<and>
         (\<forall>path table.
            list_get (images self) i = Inr path \<and> modalities_load env path \<and>
            labels self = Some table \<and>
            filter (\<lambda>r. rsFile r = Some (file_name path)) table \<noteq> [] \<and>
            (\<forall>r \<in> set (filter (\<lambda>r. rsFile r = Some (file_name path)) table).
               (\<exists>b. derived_box self env path r = Inr b) \<and>
               (\<exists>l. class_index (taxonID r) = Inr l)) \<longrightarrow>
            (\<exists>s. getitem self env i = Inr s))"
proof (intro conjI allI impI)
  fix s assume "getitem self env i = Inr s"
  with assms have "\<exists>path table bs ls.
           list_get (images self) i = Inr path \<and> labels self = Some table \<and>
           s ''boxes'' = Some (Boxes bs) \<and> s ''label'' = Some (Labels ls) \<and>
           len_boxes bs = length (filter (survives self env path) (matching_rows table (basename path))) \<and>
           length ls = len_boxes bs"
    by (rule returned_box_count)
  then show "\<exists>path table bs ls.
               list_get (images self) i = Inr path \<and> labels self = Some table \<and>
               s ''boxes'' = Some (Boxes bs) \<and> s ''label'' = Some (Labels ls) \<and>
               len_boxes bs = length (filter (\<lambda>r. rsFile r = Some (file_name path) \<and>
                                                  survives self env path r) table) \<and>
               length ls = len_boxes bs"
    by (simp only: scene_rows)
next
  fix path table
  assume a: "list_get (images self) i = Inr path \<and> modalities_load env path \<and>
            labels self = Some table \<and>
            filter (\<lambda>r. rsFile r = Some (file_name path)) table \<noteq> [] \<and>
            (\<forall>r \<in> set (filter (\<lambda>r. rsFile r = Some (file_name path)) table).
               (\<exists>b. derived_box self env path r = Inr b) \<and>
               (\<exists>l. class_index (taxonID r) = Inr l))"
  have "\<exists>s. sample_at self env i = Inr s"
    using assms(1) a [unfolded scene_rows_all]
    by (intro train_access_succeeds [of self i path env table]) simp_all
  with assms(2) show "\<exists>s. getitem self env i = Inr s"
    by (simp add: getitem_no_transform)
qed

lemma example_shared:
  "load_boxes scene_shared env_example ''RGB/a.tif''
   = Inr (TensorN4 [(10, 20, 30, 50), (190, 20, 250, 20)])"
  "load_target scene_shared ''RGB/a.tif'' = Inr [1, 32]"
  by (simp_all add: load_boxes_def load_target_def example_paths scene_shared_def
      scene_example_def env_example_def raster_example_def matching_rows_def geom_of_def
      dict_get_def pixel_box_def torch_tensor_def class_index_def codes_ACRU_TSCA)

lemma example_sample_shared:
  "sample_at scene_shared env_example 0 =
     Inr [''image'' \<mapsto> Image \<lparr>shape = [3, 200, 200], dtype = UInt8\<rparr>,
          ''hsi'' \<mapsto> Image \<lparr>shape = [369, 200, 200], dtype = Native\<rparr>,
          ''chm'' \<mapsto> Image \<lparr>shape = [1, 200, 200], dtype = Native\<rparr>,
          ''las'' \<mapsto> Points [(1, 2, 3)],
          ''boxes'' \<mapsto> Boxes (TensorN4 [(10, 20, 30, 50)]),
          ''label'' \<mapsto> Labels [1]]"
proof -
  have c: "images scene_shared = [''RGB/a.tif'', ''RGB/b.tif'']" "split scene_shared = ''train''"
    by (simp_all add: scene_shared_def scene_example_def)
  show ?thesis
    unfolding sample_at_def c
    by (simp add: example_loads example_paths example_shared example_filter_a
        height_width_def label_value_def)
qed

lemma example_survives:
  "survives scene_shared env_example ''RGB/a.tif''
     \<lparr>rsFile = Some ''a.tif'', idcol = Some 7, taxonID = Some ''ACRU''\<rparr>"
  "survives scene_shared env_example ''RGB/a.tif''
     \<lparr>rsFile = Some ''c.tif'', idcol = Some 7, taxonID = Some ''QUAL''\<rparr>"
  "\<not> survives scene_shared env_example ''RGB/a.tif''
     \<lparr>rsFile = Some ''a.tif'', idcol = Some 8, taxonID = Some ''TSCA''\<rparr>"
  by (simp_all add: survives_def derived_box_def scene_shared_def scene_example_def
      env_example_def raster_example_def geom_of_def dict_get_def pixel_box_def
      too_small_def clipped_width_def clipped_height_def clamp_def image_size_def)

theorem train_box_count_witness:
  "split scene_shared = ''train'' \<and> transforms scene_shared = None \<and>
   labels scene_shared = Some
      [\<lparr>rsFile = Some ''a.tif'', idcol = Some 7, taxonID = Some ''ACRU''\<rparr>,
       \<lparr>rsFile = Some ''c.tif'', idcol = Some 7, taxonID = Some ''QUAL''\<rparr>,
       \<lparr>rsFile = Some ''a.tif'', idcol = Some 8, taxonID = Some ''TSCA''\<rparr>] \<and>
   (\<exists>s bs ls. getitem scene_shared env_example 0 = Inr s \<and>
      s ''boxes'' = Some (Boxes bs) \<and> s ''label'' = Some (Labels ls) \<and>
      len_boxes bs = length (filter (\<lambda>r. rsFile r = Some ''a.tif'' \<and>
                                         survives scene_shared env_example ''RGB/a.tif'' r)
         [\<lparr>rsFile = Some ''a.tif'', idcol = Some 7, taxonID = Some ''ACRU''\<rparr>,
          \<lparr>rsFile = Some ''c.tif'', idcol = Some 7, taxonID = Some ''QUAL''\<rparr>,
          \<lparr>rsFile = Some ''a.tif'', idcol = Some 8, taxonID = Some ''TSCA''\<rparr>]) \<and>
      len_boxes bs = 1 \<and> length ls = 1) \<and>
   length (filter (\<lambda>r. rsFile r = Some ''a.tif'')
      [\<lparr>rsFile = Some ''a.tif'', idcol = Some 7, taxonID = Some ''ACRU''\<rparr>,
       \<lparr>rsFile = Some ''c.tif'', idcol = Some 7, taxonID = Some ''QUAL''\<rparr>,
       \<lparr>rsFile = Some ''a.tif'', idcol = Some 8, taxonID = Some ''TSCA''\<rparr>]) = 2 \<and>
   length (filter (survives scene_shared env_example ''RGB/a.tif'')
      [\<lparr>rsFile = Some ''a.tif'', idcol = Some 7, taxonID = Some ''ACRU''\<rparr>,
       \<lparr>rsFile = Some ''c.tif'', idcol = Some 7, taxonID = Some ''QUAL''\<rparr>,
       \<lparr>rsFile = Some ''a.tif'', idcol = Some 8, taxonID = Some ''TSCA''\<rparr>]) = 2"
proof -
  let ?table = "[\<lparr>rsFile = Some ''a.tif'', idcol = Some 7, taxonID = Some ''ACRU''\<rparr>,
       \<lparr>rsFile = Some ''c.tif'', idcol = Some 7, taxonID = Some ''QUAL''\<rparr>,
       \<lparr>rsFile = Some ''a.tif'', idcol = Some 8, taxonID = Some ''TSCA''\<rparr>]"
  have c: "split scene_shared = ''train''" "transforms scene_shared = None"
    by (simp_all add: scene_shared_def scene_example_def)
  have t: "labels scene_shared = Some ?table"
    by (simp add: scene_shared_def)
  have im: "list_get (images scene_shared) 0 = Inr ''RGB/a.tif''"
    by (simp add: scene_shared_def scene_example_def list_get_def)
  have fn: "file_name ''RGB/a.tif'' = ''a.tif''" by simp
  obtain s where g: "getitem scene_shared env_example 0 = Inr s"
    and sb: "s ''boxes'' = Some (Boxes (TensorN4 [(10, 20, 30, 50)]))"
    and sl: "s ''label'' = Some (Labels [1])"
    using getitem_no_transform [OF c(2), of env_example 0] by (simp add: example_sample_shared)
  from train_box_count [OF c, of env_example 0, THEN conjunct1, THEN spec, THEN mp, OF g]
  obtain path table bs ls where
    p: "list_get (images scene_shared) 0 = Inr path" and t': "labels scene_shared = Some table" and
    b: "s ''boxes'' = Some (Boxes bs)" and l: "s ''label'' = Some (Labels ls)" and
    n: "len_boxes bs = length (filter (\<lambda>r. rsFile r = Some (file_name path) \<and>
                                   survives scene_shared env_example path r) table)" and
    e: "length ls = len_boxes bs"
    by (elim exE conjE)
  from p im have path: "path = ''RGB/a.tif''" by simp
  from t t' have table: "table = ?table" by simp
  from b sb have bs: "bs = TensorN4 [(10, 20, 30, 50)]" by simp
  from l sl have ls: "ls = [1]" by simp
  have n': "len_boxes bs = length (filter (\<lambda>r. rsFile r = Some ''a.tif'' \<and>
                                         survives scene_shared env_example ''RGB/a.tif'' r) ?table)"
    using n unfolding path table fn .
  have one: "len_boxes bs = 1" "length ls = 1" using bs ls by simp_all
  have two: "length (filter (\<lambda>r. rsFile r = Some ''a.tif'') ?table) = 2"
    "length (filter (survives scene_shared env_example ''RGB/a.tif'') ?table) = 2"
    by (simp_all add: example_survives)
  have ex: "\<exists>s bs ls. getitem scene_shared env_example 0 = Inr s \<and>
      s ''boxes'' = Some (Boxes bs) \<and> s ''label'' = Some (Labels ls) \<and>
      len_boxes bs = length (filter (\<lambda>r. rsFile r = Some ''a.tif'' \<and>
                                         survives scene_shared env_example ''RGB/a.tif'' r) ?table) \<and>
      len_boxes bs = 1 \<and> length ls = 1"
    using g b l n' one by (intro exI [of _ s] exI [of _ bs] exI [of _ ls] conjI)
  from c t ex two show ?thesis by (intro conjI)
qed

text \<open>
  Claim C10. In the train split, with no transform: every label of a returned
  sample is an integer of \<open>[0, 33)\<close>; and when a row matching the scene has a
  \<^verbatim>\<open>taxonID\<close> that is none of the 33 codes, \<^verbatim>\<open>_load_target\<close> raises \<^verbatim>\<open>KeyError\<close> and the
  access returns no sample. It raises that \<^verbatim>\<open>KeyError\<close> whenever the modality files
  and the boxes, which are loaded before the labels, load; and whenever the modality
  files load and no ring of a geometry is empty it raises a lookup error, the
  \<^verbatim>\<open>KeyError\<close> of the species code or the \<^verbatim>\<open>KeyError\<close> or \<^verbatim>\<open>IndexError\<close> of a geometry
  that is missing.
\<close>

theorem train_labels_in_range:
  assumes "split self = ''train''" and "transforms self = None"
  shows "(\<forall>s. getitem self env i = Inr s \<longrightarrow>
            (\<exists>ls. s ''label'' = Some (Labels ls) \<and> (\<forall>l \<in> set ls. 0 \<le> l \<and> l < 33))) \<and>
         (\<forall>path table.
            list_get (images self) i = Inr path \<and> labels self = Some table \<and>
            (\<exists>r \<in> set (matching_rows table (basename path)). taxonID r \<notin> Some ` set codes) \<longrightarrow>
              load_target self path = Inl KeyError \<and>
              (\<exists>e. getitem self env i = Inl e) \<and>
              (modalities_load env path \<and> (\<exists>boxes. load_boxes self env path = Inr boxes) \<longrightarrow>
                 getitem self env i = Inl KeyError) \<and>
              (\<forall>g. modalities_load env path \<and> geometries self = Some g \<and> rings_nonempty g \<longrightarrow>
                 (\<exists>e. getitem self env i = Inl e \<and> lookup_error e)))"
proof (intro conjI allI impI)
  fix s assume "getitem self env i = Inr s"
  with assms have "sample_at self env i = Inr s" by (simp add: getitem_no_transform)
  from train_access [OF assms(1) this] obtain path table bxs label where
    rl: "list_all2 (\<lambda>r l. class_index (taxonID r) = Inr l)
           (matching_rows table (basename path)) label" and
    sl: "s ''label'' = Some (Labels (map snd
           (filter (\<lambda>(b, l). \<not> too_small (int (fst image_size), int (snd image_size)) 1 b)
              (zip bxs label))))"
    by blast
  have "\<forall>l \<in> set label. 0 \<le> l \<and> l < 33"
  proof
    fix l assume "l \<in> set label"
    with rl obtain r :: row where "class_index (taxonID r) = Inr l"
      by (auto simp: list_all2_conv_all_nth in_set_conv_nth)
    then show "0 \<le> l \<and> l < 33" by (rule class_index_range)
  qed
  then have "\<forall>l \<in> set (map snd
           (filter (\<lambda>(b, l). \<not> too_small (int (fst image_size), int (snd image_size)) 1 b)
              (zip bxs label))). 0 \<le> l \<and> l < 33"
    by (auto dest: set_zip_rightD)
  with sl show "\<exists>ls. s ''label'' = Some (Labels ls) \<and> (\<forall>l \<in> set ls. 0 \<le> l \<and> l < 33)"
    by blast
next
  fix path table
  assume a: "list_get (images self) i = Inr path \<and> labels self = Some table \<and>
            (\<exists>r \<in> set (matching_rows table (basename path)). taxonID r \<notin> Some ` set codes)"
  then obtain r where r: "r \<in> set (matching_rows table (basename path))"
    and u: "taxonID r \<notin> Some ` set codes"
    by blast
  from u have "class_index (taxonID r) = Inl KeyError" by (rule class_index_unknown)
  with r have "\<exists>c \<in> set (map taxonID (matching_rows table (basename path))). class_index c = Inl KeyError"
    by auto
  then have "comprehension class_index (map taxonID (matching_rows table (basename path))) = Inl KeyError"
    by (rule comprehension_Inl [rotated]) (rule class_index_error)
  with a show lt: "load_target self path = Inl KeyError"
    by (simp add: load_target_def)
  have "\<not> (\<exists>s. sample_at self env i = Inr s)"
  proof
    assume "\<exists>s. sample_at self env i = Inr s"
    then obtain s where s: "sample_at self env i = Inr s" ..
    from assms(1) have "split self \<noteq> ''test''" by simp
    from sample_at_train [OF this s] a lt show False by auto
  qed
  then show "\<exists>e. getitem self env i = Inl e"
    using assms(2) by (cases "sample_at self env i") (auto simp: getitem_no_transform)
  show "getitem self env i = Inl KeyError"
    if "modalities_load env path \<and> (\<exists>boxes. load_boxes self env path = Inr boxes)"
  proof -
    from that have "sample_at self env i = Inl KeyError"
      using a lt assms(1)
      by (auto simp: sample_at_def modalities_load_def Let_def split: sum.splits)
    with assms(2) show ?thesis by (simp add: getitem_no_transform)
  qed
  show "\<exists>e. getitem self env i = Inl e \<and> lookup_error e"
    if w: "modalities_load env path \<and> geometries self = Some g \<and> rings_nonempty g" for g
  proof -
    from a w lt assms(1) have "\<exists>e. sample_at self env i = Inl e \<and> lookup_error e"
      by (intro unknown_taxon_lookup_error [of self i path env table g]) simp_all
    with assms(2) show ?thesis by (simp add: getitem_no_transform)
  qed
qed

theorem train_labels_in_range_witness:
  "split scene_example = ''train'' \<and> transforms scene_example = None \<and>
   (\<exists>s ls. getitem scene_example env_example 0 = Inr s \<and> s ''label'' = Some (Labels ls) \<and>
      ls = [1] \<and> list_all (\<lambda>l. 0 \<le> l \<and> l < 33) ls) \<and>
   split scene_unknown = ''train'' \<and> transforms scene_unknown = None \<and>
   load_target scene_unknown ''RGB/a.tif'' = Inl KeyError \<and>
   getitem scene_unknown env_example 0 = Inl KeyError"
proof -
  have c: "split scene_example = ''train''" "transforms scene_example = None"
    by (simp_all add: scene_example_def)
  have u: "split scene_unknown = ''train''" "transforms scene_unknown = None"
    by (simp_all add: scene_unknown_def scene_example_def)
  obtain s where g: "getitem scene_example env_example 0 = Inr s"
    and sl: "s ''label'' = Some (Labels [1])"
    using getitem_no_transform [OF c(2), of env_example 0] by (simp add: example_sample_a)
  from train_labels_in_range [OF c, of env_example 0, THEN conjunct1, THEN spec, THEN mp, OF g]
  obtain ls where ls: "s ''label'' = Some (Labels ls)" and rng: "\<forall>l \<in> set ls. 0 \<le> l \<and> l < 33"
    by (elim exE conjE)
  from ls sl have e: "ls = [1]" by simp
  from rng have a: "list_all (\<lambda>l. 0 \<le> l \<and> l < 33) ls" by (simp only: list_all_iff)
  have good: "\<exists>s ls. getitem scene_example env_example 0 = Inr s \<and> s ''label'' = Some (Labels ls) \<and>
      ls = [1] \<and> list_all (\<lambda>l. 0 \<le> l \<and> l < 33) ls"
    using g ls e a by (intro exI [of _ s] exI [of _ ls] conjI)
  have p: "list_get (images scene_unknown) 0 = Inr ''RGB/a.tif''"
    "labels scene_unknown = Some [\<lparr>rsFile = Some ''a.tif'', idcol = Some 7, taxonID = Some ''OAK''\<rparr>]"
    by (simp_all add: scene_unknown_def scene_example_def list_get_def)
  have m: "matching_rows [\<lparr>rsFile = Some ''a.tif'', idcol = Some 7, taxonID = Some ''OAK''\<rparr>]
              (basename ''RGB/a.tif'')
           = [\<lparr>rsFile = Some ''a.tif'', idcol = Some 7, taxonID = Some ''OAK''\<rparr>]"
    by (simp add: matching_rows_def example_paths)
  have r: "\<exists>r \<in> set (matching_rows [\<lparr>rsFile = Some ''a.tif'', idcol = Some 7, taxonID = Some ''OAK''\<rparr>]
              (basename ''RGB/a.tif'')). taxonID r \<notin> Some ` set codes"
    unfolding m using example_unknown_code by (simp del: image_set inj_image_mem_iff)
  have h: "list_get (images scene_unknown) 0 = Inr ''RGB/a.tif'' \<and>
           labels scene_unknown = Some [\<lparr>rsFile = Some ''a.tif'', idcol = Some 7, taxonID = Some ''OAK''\<rparr>] \<and>
           (\<exists>r \<in> set (matching_rows [\<lparr>rsFile = Some ''a.tif'', idcol = Some 7, taxonID = Some ''OAK''\<rparr>]
              (basename ''RGB/a.tif'')). taxonID r \<notin> Some ` set codes)"
    using p r by (intro conjI)
  have b: "modalities_load env_example ''RGB/a.tif'' \<and>
           (\<exists>boxes. load_boxes scene_unknown env_example ''RGB/a.tif'' = Inr boxes)"
    using example_modalities(1) example_unknown by (intro conjI exI)
  note k = train_labels_in_range [OF u, of env_example 0, THEN conjunct2, THEN spec, THEN spec,
      THEN mp, OF h]
  from k have k1: "load_target scene_unknown ''RGB/a.tif'' = Inl KeyError" by (rule conjunct1)
  from k have "modalities_load env_example ''RGB/a.tif'' \<and>
           (\<exists>boxes. load_boxes scene_unknown env_example ''RGB/a.tif'' = Inr boxes) \<longrightarrow>
           getitem scene_unknown env_example 0 = Inl KeyError"
    by (elim conjE)
  from this b have k2: "getitem scene_unknown env_example 0 = Inl KeyError" by (rule mp)
  from c good u k1 k2 show ?thesis by (intro conjI)
qed

text \<open>
  Claim C6 says that a scene matching no annotation row (or no geometry) gives a
  sample with empty tensors. It does not: for such a scene \<^verbatim>\<open>_load_boxes\<close> returns
  \<^verbatim>\<open>torch.tensor([])\<close>, of shape \<^verbatim>\<open>[0]\<close> and not \<^verbatim>\<open>[0, 4]\<close>, and \<^verbatim>\<open>_filter_boxes\<close>,
  whose docstring asks for a tensor of shape \<^verbatim>\<open>[N, 4]\<close>, raises \<^verbatim>\<open>IndexError\<close> in
  \<^verbatim>\<open>remove_small_boxes\<close>. The scene \<^verbatim>\<open>RGB/b.tif\<close> of the examples, all of whose files
  load, shows it in the train split and in the test split with task 2; the lemmas
  \<open>empty_train_scene\<close> and \<open>empty_task2_scene\<close> show it for every such scene.
\<close>

theorem empty_scene_raises:
  "list_get (images scene_example) 1 = Inr ''RGB/b.tif'' \<and>
   modalities_load env_example ''RGB/b.tif'' \<and>
   load_boxes scene_example env_example ''RGB/b.tif'' = Inr Tensor0 \<and>
   load_target scene_example ''RGB/b.tif'' = Inr [] \<and>
   getitem scene_example env_example 1 = Inl IndexError \<and>
   load_boxes scene_task2 env_example ''RGB/b.tif'' = Inr Tensor0 \<and>
   getitem scene_task2 env_example 1 = Inl IndexError"
proof -
  have t: "transforms scene_example = None" "transforms scene_task2 = None"
    "images scene_example = [''RGB/a.tif'', ''RGB/b.tif'']"
    by (simp_all add: scene_task2_def scene_example_def)
  show ?thesis
    by (simp add: t getitem_no_transform example_loads example_modalities example_boxes_b
        example_target_b example_sample_b example_boxes_task2 example_task2_empty)
qed

end
